theory Spec2Isabelle
  imports Main "HOL-Library.Sublist"
begin

section \<open>Python strings\<close>

text \<open>
  Strings are \<open>char list\<close>. The handlers use \<open>str.lower\<close>, \<open>str.strip\<close>,
  the \<open>in\<close> operator, \<open>str.format\<close> with one slot and \<open>str\<close> of an integer.
  The model covers ASCII text: \<open>lower\<close> maps \<open>A..Z\<close> to \<open>a..z\<close> and leaves every
  other character alone, and \<open>isspace\<close> holds of the ASCII whitespace characters.
\<close>

definition lower_char :: "char \<Rightarrow> char" where
  "lower_char c =
     (let n = (of_char c :: nat) in if 65 \<le> n \<and> n \<le> 90 then char_of (n + 32) else c)"

definition lower :: "string \<Rightarrow> string" where
  "lower s = map lower_char s"

definition isspace :: "char \<Rightarrow> bool" where
  "isspace c = (let n = (of_char c :: nat) in (9 \<le> n \<and> n \<le> 13) \<or> (28 \<le> n \<and> n \<le> 32))"

definition strip :: "string \<Rightarrow> string" where
  "strip s = rev (dropWhile isspace (rev (dropWhile isspace s)))"

text \<open>\<open>sub in s\<close>: \<open>sub\<close> occurs in \<open>s\<close> as a contiguous run of characters.\<close>

fun str_in :: "string \<Rightarrow> string \<Rightarrow> bool" where
  "str_in sub [] = (sub = [])"
| "str_in sub (c # cs) = (prefix sub (c # cs) \<or> str_in sub cs)"

text \<open>\<open>template.format(arg)\<close> for a template with one \<open>{}\<close> slot and no other brace.\<close>

fun format1 :: "string \<Rightarrow> string \<Rightarrow> string" where
  "format1 [] arg = []"
| "format1 [c] arg = [c]"
| "format1 (c # d # cs) arg =
     (if c = CHR ''{'' \<and> d = CHR ''}'' then arg @ cs else c # format1 (d # cs) arg)"

definition digit_char :: "nat \<Rightarrow> char" where
  "digit_char d = char_of (48 + d)"

function str_nat :: "nat \<Rightarrow> string" where
  "str_nat n = (if n < 10 then [digit_char n] else str_nat (n div 10) @ [digit_char (n mod 10)])"
  by pat_completeness auto
termination
  by (relation "measure id") auto

declare str_nat.simps [simp del]

definition str_int :: "int \<Rightarrow> string" where
  "str_int i = (if i < 0 then CHR ''-'' # str_nat (nat (- i)) else str_nat (nat i))"

text \<open>
  \<open>xs[:n]\<close>, where \<open>n\<close> is an \<open>Optional[int]\<close>: \<open>None\<close> keeps the whole list, a
  negative \<open>n\<close> drops the last \<open>-n\<close> elements.
\<close>

definition slice_to :: "'a list \<Rightarrow> int option \<Rightarrow> 'a list" where
  "slice_to xs n =
     (case n of
        None \<Rightarrow> xs
      | Some k \<Rightarrow> if k < 0 then take (nat (int (length xs) + k)) xs else take (nat k) xs)"

section \<open>The parsed document\<close>

text \<open>
  \<open>BeautifulSoup(html, 'lxml')\<close> returns a tree of tags and strings. A tag carries its
  name, its \<open>class\<close> attribute (a list of class names, as bs4 keeps it) and its
  \<open>href\<close> attribute, the only attributes the handlers read.
\<close>

datatype node =
    Tag (name: string) (classes: "string list") (href: "string option") (contents: "node list")
  | NavigableString string

fun children :: "node \<Rightarrow> node list" where
  "children (Tag n cs h ks) = ks"
| "children (NavigableString s) = []"

text \<open>\<open>node.text\<close>: the strings below the node, joined in document order.\<close>

fun text_of :: "node \<Rightarrow> string" where
  "text_of (NavigableString s) = s"
| "text_of (Tag n cs h ks) = concat (map text_of ks)"

text \<open>The nodes below a node, in document order (a tag before its contents).\<close>

fun descendants :: "node \<Rightarrow> node list" where
  "descendants (NavigableString s) = []"
| "descendants (Tag n cs h ks) = concat (map (\<lambda>k. k # descendants k) ks)"

fun is_named :: "string list \<Rightarrow> node \<Rightarrow> bool" where
  "is_named names (Tag n cs h ks) = (n \<in> set names)"
| "is_named names (NavigableString s) = False"

fun has_class :: "string \<Rightarrow> node \<Rightarrow> bool" where
  "has_class c (Tag n cs h ks) = (c \<in> set cs)"
| "has_class c (NavigableString s) = False"

text \<open>
  The selector \<open>A B\<close> (descendant combinator): the tags matching \<open>B\<close> that lie below
  a tag matching \<open>A\<close>, in document order. \<open>inside\<close> says whether an ancestor
  matching \<open>A\<close> has been passed.
\<close>

fun select_in :: "(node \<Rightarrow> bool) \<Rightarrow> (node \<Rightarrow> bool) \<Rightarrow> bool \<Rightarrow> node \<Rightarrow> node list" where
  "select_in A B inside (NavigableString s) = []"
| "select_in A B inside (Tag n cs h ks) =
     (if inside \<and> B (Tag n cs h ks) then [Tag n cs h ks] else [])
     @ concat (map (select_in A B (inside \<or> A (Tag n cs h ks))) ks)"

definition select_descendant :: "(node \<Rightarrow> bool) \<Rightarrow> (node \<Rightarrow> bool) \<Rightarrow> node \<Rightarrow> node list" where
  "select_descendant A B soup = concat (map (select_in A B False) (children soup))"

text \<open>\<open>soup.select('ul.search li')\<close> and \<open>soup.select('.result-list .result')\<close>.\<close>

definition select_ul_search_li :: "node \<Rightarrow> node list" where
  "select_ul_search_li soup =
     select_descendant (\<lambda>n. is_named [''ul''] n \<and> has_class ''search'' n) (is_named [''li'']) soup"

definition select_result_list_result :: "node \<Rightarrow> node list" where
  "select_result_list_result soup =
     select_descendant (has_class ''result-list'') (has_class ''result'') soup"

text \<open>
  \<open>tag.select_one(sel)\<close> for a simple selector: the first match below the tag, or
  \<open>None\<close>. A tag object is always true in a condition, so \<open>if link:\<close> asks
  whether a match was found.
\<close>

definition select_one :: "(node \<Rightarrow> bool) \<Rightarrow> node \<Rightarrow> node option" where
  "select_one P n = find P (descendants n)"

text \<open>
  A tag object is identified by its position in the document order of the soup.
  \<open>soup.select('pre')\<close> gives the positions of the \<open>pre\<close> tags;
  \<open>block.find_previous(names)\<close> walks back from the block's position and returns the
  first tag whose name is listed.
\<close>

definition select_pre :: "node \<Rightarrow> nat list" where
  "select_pre soup =
     filter (\<lambda>i. is_named [''pre''] (descendants soup ! i)) [0..<length (descendants soup)]"

definition find_previous :: "node \<Rightarrow> nat \<Rightarrow> string list \<Rightarrow> node option" where
  "find_previous soup i names = find (is_named names) (rev (take i (descendants soup)))"

text \<open>An f-string prints \<open>None\<close> for a missing attribute.\<close>

definition fmt_opt :: "string option \<Rightarrow> string" where
  "fmt_opt v = (case v of None \<Rightarrow> ''None'' | Some s \<Rightarrow> s)"

section \<open>Queries, results and the registries\<close>

text \<open>
  The four pydantic models. Their fields keep the source's names behind a prefix for
  the model (\<open>dq_\<close>, \<open>cq_\<close>, \<open>dr_\<close>, \<open>cr_\<close>): the models share field names,
  and \<open>term\<close> and \<open>function\<close> are reserved words here. For the same reason
  \<open>response.text()\<close> is the field \<open>body\<close> below.
\<close>

record DocumentationQuery =
  dq_library :: string
  dq_term :: string
  dq_max_results :: "int option"

record CodeExampleQuery =
  cq_library :: string
  cq_function :: string
  cq_language :: "string option"
  cq_max_examples :: "int option"

text \<open>A result row is a Python dict with string keys and values, kept in insertion order.\<close>

type_synonym dict = "(string \<times> string) list"

record DocumentationResult =
  dr_library :: string
  dr_term :: string
  dr_results :: "dict list"
  dr_error :: "string option"

record CodeExampleResult =
  cr_library :: string
  cr_function :: string
  cr_examples :: "dict list"
  cr_error :: "string option"

definition DOC_SOURCES :: "(string \<times> string) list" where
  "DOC_SOURCES =
     [(''python'', ''https://docs.python.org/3/''),
      (''javascript'', ''https://developer.mozilla.org/en-US/docs/Web/JavaScript/''),
      (''nodejs'', ''https://nodejs.org/api/''),
      (''react'', ''https://reactjs.org/docs/''),
      (''tensorflow'', ''https://www.tensorflow.org/api_docs/''),
      (''pandas'', ''https://pandas.pydata.org/docs/''),
      (''django'', ''https://docs.djangoproject.com/en/stable/''),
      (''flask'', ''https://flask.palletsprojects.com/en/latest/''),
      (''fastapi'', ''https://fastapi.tiangolo.com/''),
      (''numpy'', ''https://numpy.org/doc/stable/''),
      (''pytorch'', ''https://pytorch.org/docs/stable/'')]"

definition CODE_EXAMPLE_SOURCES :: "(string \<times> string) list" where
  "CODE_EXAMPLE_SOURCES =
     [(''python'', ''https://docs.python.org/3/search.html?q={}&check_keywords=yes&area=default''),
      (''javascript'', ''https://developer.mozilla.org/en-US/search?q={}''),
      (''nodejs'', ''https://nodejs.org/api/all.html#all_{}'')]"

section \<open>The network, the parser and the server state\<close>

text \<open>
  An exception is its message (\<open>str(e)\<close>) together with its place in Python's
  hierarchy: \<open>Exception\<close> for an instance of \<open>Exception\<close>, which
  \<open>except Exception\<close> catches, and \<open>BaseException\<close> for one that is not
  (\<open>asyncio.CancelledError\<close>, \<open>KeyboardInterrupt\<close>, \<open>SystemExit\<close>), which it
  lets through. A call that may raise returns \<open>exn + 'a\<close>, \<open>Inl\<close> the exception.
\<close>

datatype exn = Exception (str: string) | BaseException (str: string)

record response =
  status :: int
  body :: "exn + string"

text \<open>
  A response has its status and its body; \<open>response.text()\<close> may raise while
  decoding. What lies outside the program is \<open>session.get(url)\<close> and the lxml
  parser behind \<open>BeautifulSoup(html, 'lxml')\<close>; both may raise.
\<close>

record env =
  session_get :: "string \<Rightarrow> exn + response"
  BeautifulSoup :: "string \<Rightarrow> exn + node"

text \<open>
  The state is the module's \<open>DOC_CACHE\<close> together with the list of URLs requested so
  far, which the source does not keep: it records the calls to \<open>session.get\<close>.
  A handler runs from its first line to its return as one step; two requests that
  interleave at an \<open>await\<close> are not modelled.
\<close>

record state =
  DOC_CACHE :: "string \<rightharpoonup> DocumentationResult"
  requests :: "string list"

definition initial :: state where
  "initial = \<lparr>DOC_CACHE = Map.empty, requests = []\<rparr>"

section \<open>search_documentation\<close>

definition cache_key_of :: "DocumentationQuery \<Rightarrow> string" where
  "cache_key_of query = dq_library query @ '':'' @ dq_term query"

text \<open>\<open>not base_url\<close>: \<open>None\<close> and the empty string are false.\<close>

definition falsy :: "string option \<Rightarrow> bool" where
  "falsy v = (case v of None \<Rightarrow> True | Some s \<Rightarrow> s = [])"

definition doc_search_url :: "DocumentationQuery \<Rightarrow> string \<Rightarrow> string" where
  "doc_search_url query base_url =
     (if lower (dq_library query) = ''python''
      then ''https://docs.python.org/3/search.html?q='' @ dq_term query
             @ ''&check_keywords=yes&area=default''
      else if lower (dq_library query) = ''javascript''
      then ''https://developer.mozilla.org/en-US/search?q='' @ dq_term query
      else base_url @ ''search.html?q='' @ dq_term query)"

definition doc_unavailable :: "DocumentationQuery \<Rightarrow> DocumentationResult" where
  "doc_unavailable query =
     \<lparr>dr_library = dq_library query, dr_term = dq_term query, dr_results = [],
      dr_error = Some (''Documentation for '' @ dq_library query @ '' is not available'')\<rparr>"

definition doc_fetch_failed :: "DocumentationQuery \<Rightarrow> int \<Rightarrow> DocumentationResult" where
  "doc_fetch_failed query st =
     \<lparr>dr_library = dq_library query, dr_term = dq_term query, dr_results = [],
      dr_error = Some (''Failed to fetch documentation: '' @ str_int st)\<rparr>"

definition doc_exception :: "DocumentationQuery \<Rightarrow> exn \<Rightarrow> DocumentationResult" where
  "doc_exception query e =
     \<lparr>dr_library = dq_library query, dr_term = dq_term query, dr_results = [],
      dr_error = Some (str e)\<rparr>"

text \<open>The two extraction loops; \<open>results\<close> is the list built so far.\<close>

fun python_results :: "node list \<Rightarrow> dict list \<Rightarrow> dict list" where
  "python_results [] results = results"
| "python_results (result # rest) results =
     (case select_one (is_named [''a'']) result of
        None \<Rightarrow> python_results rest results
      | Some link \<Rightarrow>
          python_results rest
            (results @
             [[(''title'', strip (text_of link)),
               (''url'', ''https://docs.python.org/3/'' @ fmt_opt (href link)),
               (''description'',
                  (case select_one (has_class ''context'') result of
                     Some c \<Rightarrow> strip (text_of c)
                   | None \<Rightarrow> ''''))]]))"

fun javascript_results :: "node list \<Rightarrow> dict list \<Rightarrow> dict list" where
  "javascript_results [] results = results"
| "javascript_results (result # rest) results =
     (case select_one (is_named [''a'']) result of
        None \<Rightarrow> javascript_results rest results
      | Some link \<Rightarrow>
          javascript_results rest
            (results @
             [[(''title'', strip (text_of link)),
               (''url'', ''https://developer.mozilla.org'' @ fmt_opt (href link)),
               (''description'',
                  (case select_one (has_class ''excerpt'') result of
                     Some c \<Rightarrow> strip (text_of c)
                   | None \<Rightarrow> ''''))]]))"

definition doc_extract :: "DocumentationQuery \<Rightarrow> node \<Rightarrow> dict list" where
  "doc_extract query soup =
     (if lower (dq_library query) = ''python''
      then python_results (slice_to (select_ul_search_li soup) (dq_max_results query)) []
      else if lower (dq_library query) = ''javascript''
      then javascript_results (slice_to (select_result_list_result soup) (dq_max_results query)) []
      else [])"

text \<open>
  The body of the \<open>try\<close> block: \<open>Inl e\<close> when it raises \<open>e\<close>, \<open>Inr r\<close> when it
  returns \<open>r\<close>, with the state it leaves.
\<close>

definition search_documentation_try ::
  "env \<Rightarrow> DocumentationQuery \<Rightarrow> state \<Rightarrow> (exn + DocumentationResult) \<times> state" where
  "search_documentation_try e query s =
     (let cache_key = cache_key_of query in
      case DOC_CACHE s cache_key of
        Some cached \<Rightarrow> (Inr cached, s)
      | None \<Rightarrow>
          (let base_url = map_of DOC_SOURCES (lower (dq_library query)) in
           if falsy base_url then (Inr (doc_unavailable query), s)
           else
             (let search_url = doc_search_url query (the base_url);
                  s1 = s\<lparr>requests := requests s @ [search_url]\<rparr> in
              case session_get e search_url of
                Inl ex \<Rightarrow> (Inl ex, s1)
              | Inr resp \<Rightarrow>
                  if status resp \<noteq> 200 then (Inr (doc_fetch_failed query (status resp)), s1)
                  else
                    (case body resp of
                       Inl ex \<Rightarrow> (Inl ex, s1)
                     | Inr html \<Rightarrow>
                         (case BeautifulSoup e html of
                            Inl ex \<Rightarrow> (Inl ex, s1)
                          | Inr soup \<Rightarrow>
                              (let result =
                                     \<lparr>dr_library = dq_library query, dr_term = dq_term query,
                                      dr_results = doc_extract query soup, dr_error = None\<rparr>
                               in (Inr result,
                                   s1\<lparr>DOC_CACHE := (DOC_CACHE s1)(cache_key \<mapsto> result)\<rparr>)))))))"

text \<open>
  The handler: \<open>except Exception as e\<close> turns an instance of \<open>Exception\<close> into
  a result; any other exception leaves the handler (\<open>Inl\<close>).
\<close>

definition search_documentation ::
  "env \<Rightarrow> DocumentationQuery \<Rightarrow> state \<Rightarrow> (exn + DocumentationResult) \<times> state" where
  "search_documentation e query s =
     (case search_documentation_try e query s of
        (Inl ex, s') \<Rightarrow>
          (case ex of
             Exception msg \<Rightarrow> (Inr (doc_exception query ex), s')
           | BaseException msg \<Rightarrow> (Inl ex, s'))
      | (Inr r, s') \<Rightarrow> (Inr r, s'))"

section \<open>get_code_examples\<close>

definition code_unavailable :: "CodeExampleQuery \<Rightarrow> string \<Rightarrow> CodeExampleResult" where
  "code_unavailable query language =
     \<lparr>cr_library = cq_library query, cr_function = cq_function query, cr_examples = [],
      cr_error = Some (''Code examples for '' @ language @ '' are not available'')\<rparr>"

definition code_fetch_failed :: "CodeExampleQuery \<Rightarrow> int \<Rightarrow> CodeExampleResult" where
  "code_fetch_failed query st =
     \<lparr>cr_library = cq_library query, cr_function = cq_function query, cr_examples = [],
      cr_error = Some (''Failed to fetch code examples: '' @ str_int st)\<rparr>"

definition code_exception :: "CodeExampleQuery \<Rightarrow> exn \<Rightarrow> CodeExampleResult" where
  "code_exception query e =
     \<lparr>cr_library = cq_library query, cr_function = cq_function query, cr_examples = [],
      cr_error = Some (str e)\<rparr>"

definition headings :: "string list" where
  "headings = [''h1'', ''h2'', ''h3'', ''h4'', ''h5'', ''h6'']"

definition example_of :: "node \<Rightarrow> nat \<Rightarrow> dict" where
  "example_of soup code_block =
     [(''title'',
         (case find_previous soup code_block headings of
            Some heading \<Rightarrow> strip (text_of heading)
          | None \<Rightarrow> ''Example'')),
      (''code'', strip (text_of (descendants soup ! code_block))),
      (''language'', ''python'')]"

fun python_examples :: "node \<Rightarrow> string \<Rightarrow> nat list \<Rightarrow> dict list \<Rightarrow> dict list" where
  "python_examples soup fn [] examples = examples"
| "python_examples soup fn (code_block # rest) examples =
     (if str_in fn (text_of (descendants soup ! code_block))
      then python_examples soup fn rest (examples @ [example_of soup code_block])
      else python_examples soup fn rest examples)"

definition code_extract :: "CodeExampleQuery \<Rightarrow> string \<Rightarrow> node \<Rightarrow> dict list" where
  "code_extract query language soup =
     (if language = ''python''
      then python_examples soup (cq_function query)
             (slice_to (select_pre soup) (cq_max_examples query)) []
      else [])"

text \<open>\<open>query.language.lower()\<close> raises AttributeError when the language is \<open>None\<close>.\<close>

definition none_lower :: exn where
  "none_lower =
     Exception ([CHR 0x27] @ ''NoneType'' @ [CHR 0x27] @ '' object has no attribute ''
                @ [CHR 0x27] @ ''lower'' @ [CHR 0x27])"

definition get_code_examples_try ::
  "env \<Rightarrow> CodeExampleQuery \<Rightarrow> state \<Rightarrow> (exn + CodeExampleResult) \<times> state" where
  "get_code_examples_try e query s =
     (case cq_language query of
        None \<Rightarrow> (Inl none_lower, s)
      | Some lang \<Rightarrow>
          (let language = lower lang in
           case map_of CODE_EXAMPLE_SOURCES language of
             None \<Rightarrow> (Inr (code_unavailable query language), s)
           | Some template \<Rightarrow>
               (let search_url = format1 template (cq_function query);
                    s1 = s\<lparr>requests := requests s @ [search_url]\<rparr> in
                case session_get e search_url of
                  Inl ex \<Rightarrow> (Inl ex, s1)
                | Inr resp \<Rightarrow>
                    if status resp \<noteq> 200 then (Inr (code_fetch_failed query (status resp)), s1)
                    else
                      (case body resp of
                         Inl ex \<Rightarrow> (Inl ex, s1)
                       | Inr html \<Rightarrow>
                           (case BeautifulSoup e html of
                              Inl ex \<Rightarrow> (Inl ex, s1)
                            | Inr soup \<Rightarrow>
                                (Inr \<lparr>cr_library = cq_library query,
                                      cr_function = cq_function query,
                                      cr_examples = code_extract query language soup,
                                      cr_error = None\<rparr>, s1))))))"

definition get_code_examples ::
  "env \<Rightarrow> CodeExampleQuery \<Rightarrow> state \<Rightarrow> (exn + CodeExampleResult) \<times> state" where
  "get_code_examples e query s =
     (case get_code_examples_try e query s of
        (Inl ex, s') \<Rightarrow>
          (case ex of
             Exception msg \<Rightarrow> (Inr (code_exception query ex), s')
           | BaseException msg \<Rightarrow> (Inl ex, s'))
      | (Inr r, s') \<Rightarrow> (Inr r, s'))"

text \<open>
  The states the server can be in: it starts with an empty cache, and every request
  runs one of the two handlers against some network and parser.
\<close>

inductive reachable :: "state \<Rightarrow> bool" where
  start: "reachable initial"
| docs: "reachable s \<Longrightarrow> reachable (snd (search_documentation e query s))"
| examples: "reachable s \<Longrightarrow> reachable (snd (get_code_examples e query s))"

section \<open>What the specification says about code examples\<close>

text \<open>
  The specification's reading of the Python code-example extraction, word for word:
  scan all \<open>pre\<close> blocks, keep those whose text contains the function name, cap the
  kept blocks at \<open>max_examples\<close>.
\<close>

definition spec_python_examples :: "node \<Rightarrow> string \<Rightarrow> int option \<Rightarrow> dict list" where
  "spec_python_examples soup fn max_examples =
     map (example_of soup)
       (slice_to
          (filter (\<lambda>i. str_in fn (text_of (descendants soup ! i))) (select_pre soup))
          max_examples)"

section \<open>Sample networks and documents\<close>

text \<open>A network that answers every request with one status and one parsed page.\<close>

definition reply :: "int \<Rightarrow> node \<Rightarrow> env" where
  "reply st soup =
     \<lparr>session_get = (\<lambda>url. Inr \<lparr>status = st, body = Inr ''<html></html>''\<rparr>),
      BeautifulSoup = (\<lambda>html. Inr soup)\<rparr>"

text \<open>A network on which every request raises a connection error.\<close>

definition offline :: env where
  "offline =
     \<lparr>session_get = (\<lambda>url. Inl (Exception ''Cannot connect to host'')),
      BeautifulSoup = (\<lambda>html. Inr (Tag ''[document]'' [] None []))\<rparr>"

text \<open>
  A network on which every request is cancelled: \<open>asyncio.CancelledError\<close> is not
  an instance of \<open>Exception\<close>.
\<close>

definition cancelled :: env where
  "cancelled =
     \<lparr>session_get = (\<lambda>url. Inl (BaseException ''CancelledError'')),
      BeautifulSoup = (\<lambda>html. Inr (Tag ''[document]'' [] None []))\<rparr>"

text \<open>A network that answers 200 with a body that cannot be decoded.\<close>

definition undecodable :: env where
  "undecodable =
     \<lparr>session_get =
        (\<lambda>url. Inr \<lparr>status = 200, body = Inl (Exception ''invalid start byte'')\<rparr>),
      BeautifulSoup = (\<lambda>html. Inr (Tag ''[document]'' [] None []))\<rparr>"

text \<open>A search page of docs.python.org with two hits.\<close>

definition search_page :: node where
  "search_page =
     Tag ''[document]'' [] None
       [Tag ''ul'' [''search''] None
          [Tag ''li'' [] None
             [Tag ''a'' [] (Some ''library/stdtypes.html'') [NavigableString ''list''],
              Tag ''span'' [''context''] None [NavigableString '' Built-in type '']],
           Tag ''li'' [] None
             [Tag ''a'' [] (Some ''tutorial/datastructures.html'')
                [NavigableString ''Data Structures'']]]]"

text \<open>
  A page with a heading and three \<open>pre\<close> blocks; the first and the third mention
  \<open>sorted\<close>, the second does not.
\<close>

definition examples_page :: node where
  "examples_page =
     Tag ''[document]'' [] None
       [Tag ''h2'' [] None [NavigableString ''Sorting''],
        Tag ''pre'' [] None [NavigableString ''sorted(xs)''],
        Tag ''pre'' [] None [NavigableString ''len(xs)''],
        Tag ''pre'' [] None [NavigableString ''sorted(ys)'']]"

text \<open>Sample queries.\<close>

definition list_query :: DocumentationQuery where
  "list_query = \<lparr>dq_library = ''python'', dq_term = ''list'', dq_max_results = Some 5\<rparr>"

definition sorted_query :: CodeExampleQuery where
  "sorted_query =
     \<lparr>cq_library = ''python'', cq_function = ''sorted'', cq_language = Some ''python'',
      cq_max_examples = Some 2\<rparr>"

definition one_result_query :: DocumentationQuery where
  "one_result_query = \<lparr>dq_library = ''python'', dq_term = ''list'', dq_max_results = Some 1\<rparr>"

definition colon_term_query :: DocumentationQuery where
  "colon_term_query = \<lparr>dq_library = ''python'', dq_term = ''a:b'', dq_max_results = Some 5\<rparr>"

definition colon_library_query :: DocumentationQuery where
  "colon_library_query = \<lparr>dq_library = ''python:a'', dq_term = ''b'', dq_max_results = Some 5\<rparr>"

definition rust_query :: DocumentationQuery where
  "rust_query = \<lparr>dq_library = ''Rust'', dq_term = ''vec'', dq_max_results = Some 5\<rparr>"

definition cobol_query :: CodeExampleQuery where
  "cobol_query =
     \<lparr>cq_library = ''cobol'', cq_function = ''move'', cq_language = Some ''COBOL'',
      cq_max_examples = Some 3\<rparr>"

definition react_query :: DocumentationQuery where
  "react_query = \<lparr>dq_library = ''React'', dq_term = ''hooks'', dq_max_results = Some 5\<rparr>"

definition capital_query :: DocumentationQuery where
  "capital_query = \<lparr>dq_library = ''Python'', dq_term = ''list'', dq_max_results = Some 5\<rparr>"

definition nodejs_query :: CodeExampleQuery where
  "nodejs_query =
     \<lparr>cq_library = ''node'', cq_function = ''sorted'', cq_language = Some ''nodejs'',
      cq_max_examples = Some 3\<rparr>"

definition no_language_query :: CodeExampleQuery where
  "no_language_query =
     \<lparr>cq_library = ''python'', cq_function = ''sorted'', cq_language = None,
      cq_max_examples = Some 3\<rparr>"

section \<open>Abbreviations for the proofs\<close>

text \<open>The state after one more request, and the two success results.\<close>

definition requested :: "state \<Rightarrow> string \<Rightarrow> state" where
  "requested s url = s\<lparr>requests := requests s @ [url]\<rparr>"

definition doc_success :: "DocumentationQuery \<Rightarrow> node \<Rightarrow> DocumentationResult" where
  "doc_success q soup =
     \<lparr>dr_library = dq_library q, dr_term = dq_term q, dr_results = doc_extract q soup,
      dr_error = None\<rparr>"

definition code_success :: "CodeExampleQuery \<Rightarrow> string \<Rightarrow> node \<Rightarrow> CodeExampleResult" where
  "code_success q language soup =
     \<lparr>cr_library = cq_library q, cr_function = cq_function q,
      cr_examples = code_extract q language soup, cr_error = None\<rparr>"

section \<open>Auxiliary facts\<close>

text \<open>\<open>str_in\<close> is the contiguous-sublist relation.\<close>

lemma str_in_sublist: "str_in sub s \<longleftrightarrow> sublist sub s"
  by (induction s) (auto simp: sublist_Cons_right)

lemma str_in_suffix: "str_in sub (pre @ sub)"
  by (simp add: str_in_sublist)

lemma registry_truthy: "map_of DOC_SOURCES k = Some b \<Longrightarrow> \<not> falsy (Some b)"
  by (auto simp: DOC_SOURCES_def falsy_def split: if_splits)

lemma sd_hit:
  "DOC_CACHE s (cache_key_of q) = Some r \<Longrightarrow> search_documentation e q s = (Inr r, s)"
  by (simp add: search_documentation_def search_documentation_try_def)

lemma sd_unavailable:
  "DOC_CACHE s (cache_key_of q) = None \<Longrightarrow> map_of DOC_SOURCES (lower (dq_library q)) = None
   \<Longrightarrow> search_documentation e q s = (Inr (doc_unavailable q), s)"
  by (simp add: search_documentation_def search_documentation_try_def falsy_def)

lemma sdt_fetch:
  assumes "DOC_CACHE s (cache_key_of q) = None"
    and "map_of DOC_SOURCES (lower (dq_library q)) = Some base"
  shows "search_documentation_try e q s =
     (case session_get e (doc_search_url q base) of
        Inl ex \<Rightarrow> (Inl ex, requested s (doc_search_url q base))
      | Inr resp \<Rightarrow>
          if status resp \<noteq> 200
          then (Inr (doc_fetch_failed q (status resp)), requested s (doc_search_url q base))
          else
            (case body resp of
               Inl ex \<Rightarrow> (Inl ex, requested s (doc_search_url q base))
             | Inr html \<Rightarrow>
                 (case BeautifulSoup e html of
                    Inl ex \<Rightarrow> (Inl ex, requested s (doc_search_url q base))
                  | Inr soup \<Rightarrow>
                      (Inr (doc_success q soup),
                       (requested s (doc_search_url q base))
                         \<lparr>DOC_CACHE := (DOC_CACHE s)(cache_key_of q \<mapsto> doc_success q soup)\<rparr>))))"
  using assms registry_truthy[OF assms(2)]
  by (simp add: search_documentation_try_def Let_def requested_def doc_success_def
      split: sum.splits)

lemma sd_caught:
  "search_documentation_try e q s = (Inl (Exception msg), s') \<Longrightarrow>
     search_documentation e q s = (Inr (doc_exception q (Exception msg)), s')"
  by (simp add: search_documentation_def)

lemma sd_propagated:
  "search_documentation_try e q s = (Inl (BaseException msg), s') \<Longrightarrow>
     search_documentation e q s = (Inl (BaseException msg), s')"
  by (simp add: search_documentation_def)

lemma sd_returned:
  "search_documentation_try e q s = (Inr r, s') \<Longrightarrow> search_documentation e q s = (Inr r, s')"
  by (simp add: search_documentation_def)

lemma sd_failed:
  assumes "DOC_CACHE s (cache_key_of q) = None"
    and "map_of DOC_SOURCES (lower (dq_library q)) = Some base"
    and "session_get e (doc_search_url q base) = Inr resp"
    and "status resp \<noteq> 200"
  shows "search_documentation e q s =
    (Inr (doc_fetch_failed q (status resp)), requested s (doc_search_url q base))"
  by (rule sd_returned) (simp add: sdt_fetch[OF assms(1,2)] assms(3,4))

lemma sd_success:
  assumes "DOC_CACHE s (cache_key_of q) = None"
    and "map_of DOC_SOURCES (lower (dq_library q)) = Some base"
    and "session_get e (doc_search_url q base) = Inr resp"
    and "status resp = 200"
    and "body resp = Inr html"
    and "BeautifulSoup e html = Inr soup"
  shows "search_documentation e q s =
    (Inr (doc_success q soup),
     (requested s (doc_search_url q base))
       \<lparr>DOC_CACHE := (DOC_CACHE s)(cache_key_of q \<mapsto> doc_success q soup)\<rparr>)"
  by (rule sd_returned) (simp add: sdt_fetch[OF assms(1,2)] assms(3,4,5,6))

text \<open>
  Every run of the documentation handler takes one of six paths. On the two paths
  where the body of the \<open>try\<close> block raises, the request has been made and the
  cache is untouched.
\<close>

lemma sd_cases:
  obtains
    (hit) r where "DOC_CACHE s (cache_key_of q) = Some r"
      "search_documentation e q s = (Inr r, s)"
  | (unavailable) "DOC_CACHE s (cache_key_of q) = None"
      "map_of DOC_SOURCES (lower (dq_library q)) = None"
      "search_documentation e q s = (Inr (doc_unavailable q), s)"
  | (caught) base msg where "DOC_CACHE s (cache_key_of q) = None"
      "map_of DOC_SOURCES (lower (dq_library q)) = Some base"
      "search_documentation_try e q s =
         (Inl (Exception msg), requested s (doc_search_url q base))"
      "search_documentation e q s =
         (Inr (doc_exception q (Exception msg)), requested s (doc_search_url q base))"
  | (propagated) base msg where "DOC_CACHE s (cache_key_of q) = None"
      "map_of DOC_SOURCES (lower (dq_library q)) = Some base"
      "search_documentation_try e q s =
         (Inl (BaseException msg), requested s (doc_search_url q base))"
      "search_documentation e q s =
         (Inl (BaseException msg), requested s (doc_search_url q base))"
  | (failed) base resp where "DOC_CACHE s (cache_key_of q) = None"
      "map_of DOC_SOURCES (lower (dq_library q)) = Some base"
      "session_get e (doc_search_url q base) = Inr resp" "status resp \<noteq> 200"
      "search_documentation e q s =
         (Inr (doc_fetch_failed q (status resp)), requested s (doc_search_url q base))"
  | (success) base resp html soup where "DOC_CACHE s (cache_key_of q) = None"
      "map_of DOC_SOURCES (lower (dq_library q)) = Some base"
      "session_get e (doc_search_url q base) = Inr resp" "status resp = 200"
      "body resp = Inr html" "BeautifulSoup e html = Inr soup"
      "search_documentation e q s =
         (Inr (doc_success q soup),
          (requested s (doc_search_url q base))
            \<lparr>DOC_CACHE := (DOC_CACHE s)(cache_key_of q \<mapsto> doc_success q soup)\<rparr>)"
proof (cases "DOC_CACHE s (cache_key_of q)")
  case (Some r)
  then show ?thesis using hit sd_hit by blast
next
  case None
  note miss = this
  show ?thesis
  proof (cases "map_of DOC_SOURCES (lower (dq_library q))")
    case None
    then show ?thesis using unavailable miss sd_unavailable by blast
  next
    case (Some base)
    note reg = this
    have raises: thesis
      if "search_documentation_try e q s = (Inl ex, requested s (doc_search_url q base))" for ex
    proof (cases ex)
      case (Exception msg)
      then show ?thesis using that caught[OF miss reg] sd_caught by blast
    next
      case (BaseException msg)
      then show ?thesis using that propagated[OF miss reg] sd_propagated by blast
    qed
    show ?thesis
    proof (cases "session_get e (doc_search_url q base)")
      case (Inl ex)
      then show ?thesis using raises[of ex] by (simp add: sdt_fetch[OF miss reg])
    next
      case (Inr resp)
      note got = this
      show ?thesis
      proof (cases "status resp = 200")
        case False
        then show ?thesis using failed[OF miss reg got] sd_failed[OF miss reg got] by blast
      next
        case True
        note ok = this
        show ?thesis
        proof (cases "body resp")
          case (Inl ex)
          then show ?thesis using raises[of ex] by (simp add: sdt_fetch[OF miss reg] got ok)
        next
          case (Inr html)
          note dec = this
          show ?thesis
          proof (cases "BeautifulSoup e html")
            case (Inl ex)
            then show ?thesis
              using raises[of ex] by (simp add: sdt_fetch[OF miss reg] got ok dec)
          next
            case (Inr soup)
            then show ?thesis
              using success[OF miss reg got ok dec] sd_success[OF miss reg got ok dec] by blast
          qed
        qed
      qed
    qed
  qed
qed

lemma requests_requested [simp]: "requests (requested s url) = requests s @ [url]"
  by (simp add: requested_def)

lemma cache_requested [simp]: "DOC_CACHE (requested s url) = DOC_CACHE s"
  by (simp add: requested_def)

lemma gce_caught:
  "get_code_examples_try e q s = (Inl (Exception msg), s') \<Longrightarrow>
     get_code_examples e q s = (Inr (code_exception q (Exception msg)), s')"
  by (simp add: get_code_examples_def)

lemma gce_propagated:
  "get_code_examples_try e q s = (Inl (BaseException msg), s') \<Longrightarrow>
     get_code_examples e q s = (Inl (BaseException msg), s')"
  by (simp add: get_code_examples_def)

lemma gce_returned:
  "get_code_examples_try e q s = (Inr r, s') \<Longrightarrow> get_code_examples e q s = (Inr r, s')"
  by (simp add: get_code_examples_def)

lemma gce_none:
  "cq_language q = None \<Longrightarrow> get_code_examples e q s = (Inr (code_exception q none_lower), s)"
  by (simp add: get_code_examples_def get_code_examples_try_def none_lower_def)

lemma gce_unavailable:
  "cq_language q = Some lang \<Longrightarrow> map_of CODE_EXAMPLE_SOURCES (lower lang) = None
   \<Longrightarrow> get_code_examples e q s = (Inr (code_unavailable q (lower lang)), s)"
  by (simp add: get_code_examples_def get_code_examples_try_def)

lemma gcet_fetch:
  assumes "cq_language q = Some lang"
    and "map_of CODE_EXAMPLE_SOURCES (lower lang) = Some template"
  shows "get_code_examples_try e q s =
     (case session_get e (format1 template (cq_function q)) of
        Inl ex \<Rightarrow> (Inl ex, requested s (format1 template (cq_function q)))
      | Inr resp \<Rightarrow>
          if status resp \<noteq> 200
          then (Inr (code_fetch_failed q (status resp)),
                requested s (format1 template (cq_function q)))
          else
            (case body resp of
               Inl ex \<Rightarrow> (Inl ex, requested s (format1 template (cq_function q)))
             | Inr html \<Rightarrow>
                 (case BeautifulSoup e html of
                    Inl ex \<Rightarrow> (Inl ex, requested s (format1 template (cq_function q)))
                  | Inr soup \<Rightarrow>
                      (Inr (code_success q (lower lang) soup),
                       requested s (format1 template (cq_function q))))))"
  using assms
  by (simp add: get_code_examples_try_def Let_def requested_def code_success_def
      split: sum.splits)

lemma gce_failed:
  assumes "cq_language q = Some lang"
    and "map_of CODE_EXAMPLE_SOURCES (lower lang) = Some template"
    and "session_get e (format1 template (cq_function q)) = Inr resp"
    and "status resp \<noteq> 200"
  shows "get_code_examples e q s =
    (Inr (code_fetch_failed q (status resp)), requested s (format1 template (cq_function q)))"
  by (rule gce_returned) (simp add: gcet_fetch[OF assms(1,2)] assms(3,4))

lemma gce_success:
  assumes "cq_language q = Some lang"
    and "map_of CODE_EXAMPLE_SOURCES (lower lang) = Some template"
    and "session_get e (format1 template (cq_function q)) = Inr resp"
    and "status resp = 200"
    and "body resp = Inr html"
    and "BeautifulSoup e html = Inr soup"
  shows "get_code_examples e q s =
    (Inr (code_success q (lower lang) soup), requested s (format1 template (cq_function q)))"
  by (rule gce_returned) (simp add: gcet_fetch[OF assms(1,2)] assms(3,4,5,6))

text \<open>
  Every run of the code-example handler takes one of five paths. On the two paths
  where the body of the \<open>try\<close> block raises, the cache is untouched.
\<close>

lemma gce_cases:
  obtains
    (unavailable) lang where "cq_language q = Some lang"
      "map_of CODE_EXAMPLE_SOURCES (lower lang) = None"
      "get_code_examples e q s = (Inr (code_unavailable q (lower lang)), s)"
  | (caught) msg s' where "get_code_examples_try e q s = (Inl (Exception msg), s')"
      "DOC_CACHE s' = DOC_CACHE s"
      "get_code_examples e q s = (Inr (code_exception q (Exception msg)), s')"
  | (propagated) msg s' where "get_code_examples_try e q s = (Inl (BaseException msg), s')"
      "DOC_CACHE s' = DOC_CACHE s"
      "get_code_examples e q s = (Inl (BaseException msg), s')"
  | (failed) lang template resp where "cq_language q = Some lang"
      "map_of CODE_EXAMPLE_SOURCES (lower lang) = Some template"
      "session_get e (format1 template (cq_function q)) = Inr resp" "status resp \<noteq> 200"
      "get_code_examples e q s =
         (Inr (code_fetch_failed q (status resp)),
          requested s (format1 template (cq_function q)))"
  | (success) lang template resp html soup where "cq_language q = Some lang"
      "map_of CODE_EXAMPLE_SOURCES (lower lang) = Some template"
      "session_get e (format1 template (cq_function q)) = Inr resp" "status resp = 200"
      "body resp = Inr html" "BeautifulSoup e html = Inr soup"
      "get_code_examples e q s =
         (Inr (code_success q (lower lang) soup),
          requested s (format1 template (cq_function q)))"
proof -
  have raises: thesis
    if "get_code_examples_try e q s = (Inl ex, s')" and "DOC_CACHE s' = DOC_CACHE s" for ex s'
  proof (cases ex)
    case (Exception msg)
    then show ?thesis using that caught gce_caught by blast
  next
    case (BaseException msg)
    then show ?thesis using that propagated gce_propagated by blast
  qed
  show ?thesis
  proof (cases "cq_language q")
    case None
    then show ?thesis
      using raises[of none_lower s] by (simp add: get_code_examples_try_def)
  next
    case (Some lang)
    note lang = this
    show ?thesis
    proof (cases "map_of CODE_EXAMPLE_SOURCES (lower lang)")
      case None
      then show ?thesis using unavailable lang gce_unavailable by blast
    next
      case (Some template)
      note reg = this
      show ?thesis
      proof (cases "session_get e (format1 template (cq_function q))")
        case (Inl ex)
        then show ?thesis
          using raises[of ex "requested s (format1 template (cq_function q))"]
          by (simp add: gcet_fetch[OF lang reg])
      next
        case (Inr resp)
        note got = this
        show ?thesis
        proof (cases "status resp = 200")
          case False
          then show ?thesis using failed[OF lang reg got] gce_failed[OF lang reg got] by blast
        next
          case True
          note ok = this
          show ?thesis
          proof (cases "body resp")
            case (Inl ex)
            then show ?thesis
              using raises[of ex "requested s (format1 template (cq_function q))"]
              by (simp add: gcet_fetch[OF lang reg] got ok)
          next
            case (Inr html)
            note dec = this
            show ?thesis
            proof (cases "BeautifulSoup e html")
              case (Inl ex)
              then show ?thesis
                using raises[of ex "requested s (format1 template (cq_function q))"]
                by (simp add: gcet_fetch[OF lang reg] got ok dec)
            next
              case (Inr soup)
              then show ?thesis
                using success[OF lang reg got ok dec] gce_success[OF lang reg got ok dec]
                by blast
            qed
          qed
        qed
      qed
    qed
  qed
qed

text \<open>
  Claim C5. With an empty cache and a library whose lower-cased name is not in
  \<open>DOC_SOURCES\<close>, the documentation handler returns a result with no results and
  the unsupported-library error, and the state, with its list of requests, is
  unchanged. With a language whose lower-cased name is not in
  \<open>CODE_EXAMPLE_SOURCES\<close>, the code-example handler returns a result with no
  examples and the unsupported-language error, and the state is unchanged.
\<close>

theorem unsupported_without_request:
  "(DOC_CACHE s = Map.empty \<and> map_of DOC_SOURCES (lower (dq_library q)) = None \<longrightarrow>
      (\<exists>r. fst (search_documentation e q s) = Inr r \<and>
           dr_results r = [] \<and>
           dr_error r = Some (''Documentation for '' @ dq_library q @ '' is not available'')) \<and>
      snd (search_documentation e q s) = s) \<and>
   (cq_language c = Some lang \<and> map_of CODE_EXAMPLE_SOURCES (lower lang) = None \<longrightarrow>
      (\<exists>r. fst (get_code_examples e c s) = Inr r \<and>
           cr_examples r = [] \<and>
           cr_error r = Some (''Code examples for '' @ lower lang @ '' are not available'')) \<and>
      snd (get_code_examples e c s) = s)"
proof (intro conjI impI)
  assume a: "DOC_CACHE s = Map.empty \<and> map_of DOC_SOURCES (lower (dq_library q)) = None"
  then have run: "search_documentation e q s = (Inr (doc_unavailable q), s)"
    by (intro sd_unavailable) simp_all
  show "\<exists>r. fst (search_documentation e q s) = Inr r \<and>
           dr_results r = [] \<and>
           dr_error r = Some (''Documentation for '' @ dq_library q @ '' is not available'')"
    by (simp add: run doc_unavailable_def)
  show "snd (search_documentation e q s) = s"
    by (simp add: run)
next
  assume a: "cq_language c = Some lang \<and> map_of CODE_EXAMPLE_SOURCES (lower lang) = None"
  then have run: "get_code_examples e c s = (Inr (code_unavailable c (lower lang)), s)"
    using gce_unavailable[of c lang e s] by simp
  show "\<exists>r. fst (get_code_examples e c s) = Inr r \<and>
           cr_examples r = [] \<and>
           cr_error r = Some (''Code examples for '' @ lower lang @ '' are not available'')"
    by (simp add: run code_unavailable_def)
  show "snd (get_code_examples e c s) = s"
    by (simp add: run)
qed

text \<open>
  Claim C3. When the request of either handler is answered with a status other than
  200, the handler returns a result with an empty list and the error
  \<open>Failed to fetch ...: \<close> followed by the status code, so the message contains
  the code, and the cache is left as it was. The hypotheses say that the handler
  reaches the fetch: for documentation the key is not cached and the library is
  registered, for code examples the language is registered.
\<close>

theorem fetch_failure_reported_not_cached:
  assumes "status resp \<noteq> 200"
  shows
  "(DOC_CACHE s (cache_key_of q) = None \<and>
    map_of DOC_SOURCES (lower (dq_library q)) = Some base \<and>
    session_get e (doc_search_url q base) = Inr resp \<longrightarrow>
      (\<exists>r msg. fst (search_documentation e q s) = Inr r \<and>
           dr_results r = [] \<and>
           dr_error r = Some msg \<and>
           msg = ''Failed to fetch documentation: '' @ str_int (status resp) \<and>
           str_in (str_int (status resp)) msg) \<and>
      DOC_CACHE (snd (search_documentation e q s)) = DOC_CACHE s) \<and>
   (cq_language c = Some lang \<and>
    map_of CODE_EXAMPLE_SOURCES (lower lang) = Some template \<and>
    session_get e (format1 template (cq_function c)) = Inr resp \<longrightarrow>
      (\<exists>r msg. fst (get_code_examples e c s) = Inr r \<and>
           cr_examples r = [] \<and>
           cr_error r = Some msg \<and>
           msg = ''Failed to fetch code examples: '' @ str_int (status resp) \<and>
           str_in (str_int (status resp)) msg) \<and>
      DOC_CACHE (snd (get_code_examples e c s)) = DOC_CACHE s)"
proof (intro conjI impI)
  assume a: "DOC_CACHE s (cache_key_of q) = None \<and>
    map_of DOC_SOURCES (lower (dq_library q)) = Some base \<and>
    session_get e (doc_search_url q base) = Inr resp"
  have run: "search_documentation e q s =
      (Inr (doc_fetch_failed q (status resp)), requested s (doc_search_url q base))"
    using a assms sd_failed[of s q base e resp] by simp
  have "fst (search_documentation e q s) = Inr (doc_fetch_failed q (status resp)) \<and>
      dr_results (doc_fetch_failed q (status resp)) = [] \<and>
      dr_error (doc_fetch_failed q (status resp)) =
        Some (''Failed to fetch documentation: '' @ str_int (status resp)) \<and>
      ''Failed to fetch documentation: '' @ str_int (status resp) =
        ''Failed to fetch documentation: '' @ str_int (status resp) \<and>
      str_in (str_int (status resp))
        (''Failed to fetch documentation: '' @ str_int (status resp))"
    using str_in_suffix[of "str_int (status resp)" "''Failed to fetch documentation: ''"]
    by (simp add: run doc_fetch_failed_def del: str_in.simps)
  then show "\<exists>r msg. fst (search_documentation e q s) = Inr r \<and>
           dr_results r = [] \<and>
           dr_error r = Some msg \<and>
           msg = ''Failed to fetch documentation: '' @ str_int (status resp) \<and>
           str_in (str_int (status resp)) msg"
    by blast
  show "DOC_CACHE (snd (search_documentation e q s)) = DOC_CACHE s"
    by (simp add: run)
next
  assume a: "cq_language c = Some lang \<and>
    map_of CODE_EXAMPLE_SOURCES (lower lang) = Some template \<and>
    session_get e (format1 template (cq_function c)) = Inr resp"
  have run: "get_code_examples e c s =
      (Inr (code_fetch_failed c (status resp)),
       requested s (format1 template (cq_function c)))"
    using a assms gce_failed[of c lang template e resp s] by simp
  have "fst (get_code_examples e c s) = Inr (code_fetch_failed c (status resp)) \<and>
      cr_examples (code_fetch_failed c (status resp)) = [] \<and>
      cr_error (code_fetch_failed c (status resp)) =
        Some (''Failed to fetch code examples: '' @ str_int (status resp)) \<and>
      ''Failed to fetch code examples: '' @ str_int (status resp) =
        ''Failed to fetch code examples: '' @ str_int (status resp) \<and>
      str_in (str_int (status resp))
        (''Failed to fetch code examples: '' @ str_int (status resp))"
    using str_in_suffix[of "str_int (status resp)" "''Failed to fetch code examples: ''"]
    by (simp add: run code_fetch_failed_def del: str_in.simps)
  then show "\<exists>r msg. fst (get_code_examples e c s) = Inr r \<and>
           cr_examples r = [] \<and>
           cr_error r = Some msg \<and>
           msg = ''Failed to fetch code examples: '' @ str_int (status resp) \<and>
           str_in (str_int (status resp)) msg"
    by blast
  show "DOC_CACHE (snd (get_code_examples e c s)) = DOC_CACHE s"
    by (simp add: run)
qed

lemma reply_get [simp]:
  "session_get (reply st soup) url = Inr \<lparr>status = st, body = Inr ''<html></html>''\<rparr>"
  by (simp add: reply_def)

lemma reply_parse [simp]: "BeautifulSoup (reply st soup) html = Inr soup"
  by (simp add: reply_def)

lemma list_query_registered:
  "map_of DOC_SOURCES (lower (dq_library list_query)) = Some ''https://docs.python.org/3/''"
  by code_simp

lemma sorted_query_registered:
  "map_of CODE_EXAMPLE_SOURCES (lower ''python'') =
     Some ''https://docs.python.org/3/search.html?q={}&check_keywords=yes&area=default''"
  by code_simp

lemma str_int_404: "str_int 404 = ''404''"
  by code_simp

text \<open>C3 on a network that answers 404 to every request.\<close>

theorem fetch_failure_reported_not_cached_witness:
  "(\<exists>r. fst (search_documentation (reply 404 search_page) list_query initial) = Inr r \<and>
      dr_results r = [] \<and> dr_error r = Some ''Failed to fetch documentation: 404'') \<and>
   DOC_CACHE (snd (search_documentation (reply 404 search_page) list_query initial)) ''python:list''
     = None \<and>
   (\<exists>r. fst (get_code_examples (reply 404 search_page) sorted_query initial) = Inr r \<and>
      cr_examples r = [] \<and> cr_error r = Some ''Failed to fetch code examples: 404'')"
proof -
  let ?resp = "\<lparr>status = 404, body = Inr ''<html></html>''\<rparr>"
  have st: "status ?resp \<noteq> 200" by simp
  have h1: "DOC_CACHE initial (cache_key_of list_query) = None \<and>
      map_of DOC_SOURCES (lower (dq_library list_query)) = Some ''https://docs.python.org/3/'' \<and>
      session_get (reply 404 search_page)
        (doc_search_url list_query ''https://docs.python.org/3/'') = Inr ?resp"
    using list_query_registered by (simp add: initial_def)
  have h2: "cq_language sorted_query = Some ''python'' \<and>
      map_of CODE_EXAMPLE_SOURCES (lower ''python'') =
        Some ''https://docs.python.org/3/search.html?q={}&check_keywords=yes&area=default'' \<and>
      session_get (reply 404 search_page)
        (format1 ''https://docs.python.org/3/search.html?q={}&check_keywords=yes&area=default''
           (cq_function sorted_query)) = Inr ?resp"
    using sorted_query_registered by (simp add: sorted_query_def)
  note d = fetch_failure_reported_not_cached [OF st, THEN conjunct1, rule_format, OF h1]
  note c = fetch_failure_reported_not_cached [OF st, THEN conjunct2, rule_format, OF h2,
      of initial]
  have d1: "\<exists>r. fst (search_documentation (reply 404 search_page) list_query initial) = Inr r \<and>
      dr_results r = [] \<and> dr_error r = Some ''Failed to fetch documentation: 404''"
    using d [THEN conjunct1] by (auto simp: str_int_404)
  have d2: "DOC_CACHE (snd (search_documentation (reply 404 search_page) list_query initial))
      ''python:list'' = None"
    using d [THEN conjunct2] by (simp add: initial_def)
  have c1: "\<exists>r. fst (get_code_examples (reply 404 search_page) sorted_query initial) = Inr r \<and>
      cr_examples r = [] \<and> cr_error r = Some ''Failed to fetch code examples: 404''"
    using c [THEN conjunct1] by (auto simp: str_int_404)
  show ?thesis using d1 d2 c1 by blast
qed

text \<open>C5 for the library \<open>Rust\<close> and the language \<open>COBOL\<close>.\<close>

theorem unsupported_without_request_witness:
  "(\<exists>r. fst (search_documentation offline rust_query initial) = Inr r \<and>
      dr_results r = [] \<and> dr_error r = Some ''Documentation for Rust is not available'') \<and>
   requests (snd (search_documentation offline rust_query initial)) = [] \<and>
   (\<exists>r. fst (get_code_examples offline cobol_query initial) = Inr r \<and>
      cr_examples r = [] \<and> cr_error r = Some ''Code examples for cobol are not available'') \<and>
   requests (snd (get_code_examples offline cobol_query initial)) = []"
proof -
  have h1: "DOC_CACHE initial = Map.empty \<and>
      map_of DOC_SOURCES (lower (dq_library rust_query)) = None"
  proof
    show "DOC_CACHE initial = Map.empty" by (simp add: initial_def)
    show "map_of DOC_SOURCES (lower (dq_library rust_query)) = None" by code_simp
  qed
  have h2: "cq_language cobol_query = Some ''COBOL'' \<and>
      map_of CODE_EXAMPLE_SOURCES (lower ''COBOL'') = None"
  proof
    show "cq_language cobol_query = Some ''COBOL''" by (simp add: cobol_query_def)
    show "map_of CODE_EXAMPLE_SOURCES (lower ''COBOL'') = None" by code_simp
  qed
  have l: "lower ''COBOL'' = ''cobol''" by code_simp
  note d = unsupported_without_request [THEN conjunct1, rule_format, OF h1, of offline]
  note c = unsupported_without_request [THEN conjunct2, rule_format, OF h2, of offline initial]
  have d1: "\<exists>r. fst (search_documentation offline rust_query initial) = Inr r \<and>
      dr_results r = [] \<and> dr_error r = Some ''Documentation for Rust is not available''"
    using d [THEN conjunct1] by (auto simp: rust_query_def)
  have d2: "requests (snd (search_documentation offline rust_query initial)) = []"
    using d [THEN conjunct2] by (simp add: initial_def)
  have c1: "\<exists>r. fst (get_code_examples offline cobol_query initial) = Inr r \<and>
      cr_examples r = [] \<and> cr_error r = Some ''Code examples for cobol are not available''"
    using c [THEN conjunct1] by (auto simp: l)
  have c2: "requests (snd (get_code_examples offline cobol_query initial)) = []"
    using c [THEN conjunct2] by (simp add: initial_def)
  show ?thesis using d1 d2 c1 c2 by blast
qed

text \<open>
  Claim C4. If the cache holds an entry under \<open>library:term\<close>, the handler returns
  that entry and leaves the state, with its list of requests, unchanged, whatever the
  network and the parser would do. After a successful call on a cache miss the result
  \<open>r1\<close> is stored under the key, and a second call with the same query, against any
  network \<open>e'\<close>, returns the same result and the same state: the two calls together
  have made the one request of the first.
\<close>

theorem cache_hit_short_circuits:
  "(DOC_CACHE s (cache_key_of q) = Some r \<longrightarrow> search_documentation e q s = (Inr r, s)) \<and>
   (DOC_CACHE s (cache_key_of q) = None \<and>
    map_of DOC_SOURCES (lower (dq_library q)) = Some base \<and>
    session_get e (doc_search_url q base) = Inr resp \<and> status resp = 200 \<and>
    body resp = Inr html \<and> BeautifulSoup e html = Inr soup \<longrightarrow>
      (\<exists>r1. fst (search_documentation e q s) = Inr r1 \<and>
         DOC_CACHE (snd (search_documentation e q s)) (cache_key_of q) = Some r1 \<and>
         fst (search_documentation e' q (snd (search_documentation e q s))) = Inr r1) \<and>
      snd (search_documentation e' q (snd (search_documentation e q s))) =
        snd (search_documentation e q s) \<and>
      requests (snd (search_documentation e' q (snd (search_documentation e q s)))) =
        requests s @ [doc_search_url q base])"
proof (intro conjI impI)
  assume "DOC_CACHE s (cache_key_of q) = Some r"
  then show "search_documentation e q s = (Inr r, s)" by (rule sd_hit)
next
  assume a: "DOC_CACHE s (cache_key_of q) = None \<and>
    map_of DOC_SOURCES (lower (dq_library q)) = Some base \<and>
    session_get e (doc_search_url q base) = Inr resp \<and> status resp = 200 \<and>
    body resp = Inr html \<and> BeautifulSoup e html = Inr soup"
  define s1 where "s1 = snd (search_documentation e q s)"
  have first: "search_documentation e q s =
      (Inr (doc_success q soup),
       (requested s (doc_search_url q base))
         \<lparr>DOC_CACHE := (DOC_CACHE s)(cache_key_of q \<mapsto> doc_success q soup)\<rparr>)"
    using a sd_success[of s q base e resp html soup] by simp
  have stored: "DOC_CACHE s1 (cache_key_of q) = Some (doc_success q soup)"
    by (simp add: s1_def first)
  have second: "search_documentation e' q s1 = (Inr (doc_success q soup), s1)"
    using stored by (rule sd_hit)
  have log: "requests s1 = requests s @ [doc_search_url q base]"
    by (simp add: s1_def first)
  have "fst (search_documentation e q s) = Inr (doc_success q soup) \<and>
         DOC_CACHE (snd (search_documentation e q s)) (cache_key_of q) =
           Some (doc_success q soup) \<and>
         fst (search_documentation e' q (snd (search_documentation e q s))) =
           Inr (doc_success q soup)"
    using stored second by (simp add: s1_def [symmetric]) (simp add: first)
  then show "\<exists>r1. fst (search_documentation e q s) = Inr r1 \<and>
         DOC_CACHE (snd (search_documentation e q s)) (cache_key_of q) = Some r1 \<and>
         fst (search_documentation e' q (snd (search_documentation e q s))) = Inr r1"
    by blast
  show "snd (search_documentation e' q (snd (search_documentation e q s))) =
        snd (search_documentation e q s)"
    using second by (simp add: s1_def [symmetric])
  show "requests (snd (search_documentation e' q (snd (search_documentation e q s)))) =
        requests s @ [doc_search_url q base]"
    using second log by (simp add: s1_def [symmetric])
qed

lemma list_query_url:
  "doc_search_url list_query ''https://docs.python.org/3/'' =
     ''https://docs.python.org/3/search.html?q=list&check_keywords=yes&area=default''"
  by code_simp

lemma list_query_results:
  "doc_extract list_query search_page =
     [[(''title'', ''list''),
       (''url'', ''https://docs.python.org/3/library/stdtypes.html''),
       (''description'', ''Built-in type'')],
      [(''title'', ''Data Structures''),
       (''url'', ''https://docs.python.org/3/tutorial/datastructures.html''),
       (''description'', '''')]]"
  by code_simp

lemma list_query_run:
  "search_documentation (reply 200 search_page) list_query initial =
     (Inr (doc_success list_query search_page),
      (requested initial (doc_search_url list_query ''https://docs.python.org/3/''))
        \<lparr>DOC_CACHE := (DOC_CACHE initial)(cache_key_of list_query \<mapsto>
           doc_success list_query search_page)\<rparr>)"
proof -
  have miss: "DOC_CACHE initial (cache_key_of list_query) = None"
    by (simp add: initial_def)
  show ?thesis
    using sd_success[OF miss list_query_registered, of "reply 200 search_page"
        "\<lparr>status = 200, body = Inr ''<html></html>''\<rparr>" "''<html></html>''" search_page]
    by simp
qed

text \<open>
  C4 on the sample search page: the second call is made while the network is down and
  still returns the two records.
\<close>

theorem cache_hit_short_circuits_witness:
  "fst (search_documentation (reply 200 search_page) list_query initial) =
     Inr \<lparr>dr_library = ''python'', dr_term = ''list'',
      dr_results =
        [[(''title'', ''list''),
          (''url'', ''https://docs.python.org/3/library/stdtypes.html''),
          (''description'', ''Built-in type'')],
         [(''title'', ''Data Structures''),
          (''url'', ''https://docs.python.org/3/tutorial/datastructures.html''),
          (''description'', '''')]],
      dr_error = None\<rparr> \<and>
   fst (search_documentation offline list_query
          (snd (search_documentation (reply 200 search_page) list_query initial))) =
     fst (search_documentation (reply 200 search_page) list_query initial) \<and>
   requests (snd (search_documentation offline list_query
          (snd (search_documentation (reply 200 search_page) list_query initial)))) =
     [''https://docs.python.org/3/search.html?q=list&check_keywords=yes&area=default'']"
proof -
  let ?resp = "\<lparr>status = 200, body = Inr ''<html></html>''\<rparr>"
  let ?first = "search_documentation (reply 200 search_page) list_query initial"
  have hyp: "DOC_CACHE initial (cache_key_of list_query) = None \<and>
      map_of DOC_SOURCES (lower (dq_library list_query)) = Some ''https://docs.python.org/3/'' \<and>
      session_get (reply 200 search_page)
        (doc_search_url list_query ''https://docs.python.org/3/'') = Inr ?resp \<and>
      status ?resp = 200 \<and> body ?resp = Inr ''<html></html>'' \<and>
      BeautifulSoup (reply 200 search_page) ''<html></html>'' = Inr search_page"
    using list_query_registered by (simp add: initial_def)
  note concl = cache_hit_short_circuits [THEN conjunct2, rule_format, OF hyp, of offline]
  have a: "fst ?first =
     Inr \<lparr>dr_library = ''python'', dr_term = ''list'',
      dr_results =
        [[(''title'', ''list''),
          (''url'', ''https://docs.python.org/3/library/stdtypes.html''),
          (''description'', ''Built-in type'')],
         [(''title'', ''Data Structures''),
          (''url'', ''https://docs.python.org/3/tutorial/datastructures.html''),
          (''description'', '''')]],
      dr_error = None\<rparr>"
    by (simp add: list_query_run doc_success_def list_query_results) (simp add: list_query_def)
  have b: "fst (search_documentation offline list_query (snd ?first)) = fst ?first"
    using concl [THEN conjunct1] by auto
  have c: "requests (snd (search_documentation offline list_query (snd ?first))) =
     [''https://docs.python.org/3/search.html?q=list&check_keywords=yes&area=default'']"
    using concl [THEN conjunct2, THEN conjunct2] by (simp add: list_query_url initial_def)
  show ?thesis using a b c by blast
qed

lemma length_python_results:
  "length (python_results xs acc) \<le> length acc + length xs"
proof (induction xs arbitrary: acc)
  case Nil
  then show ?case by simp
next
  case (Cons x xs)
  show ?case
  proof (cases "select_one (is_named [''a'']) x")
    case None
    then show ?thesis using Cons.IH[of acc] by simp
  next
    case (Some link)
    then show ?thesis using Cons.IH[of "acc @ [_]"] by (simp del: append_assoc) 
  qed
qed

lemma length_javascript_results:
  "length (javascript_results xs acc) \<le> length acc + length xs"
proof (induction xs arbitrary: acc)
  case Nil
  then show ?case by simp
next
  case (Cons x xs)
  show ?case
  proof (cases "select_one (is_named [''a'']) x")
    case None
    then show ?thesis using Cons.IH[of acc] by simp
  next
    case (Some link)
    then show ?thesis using Cons.IH[of "acc @ [_]"] by (simp del: append_assoc)
  qed
qed

lemma python_examples_filter:
  "python_examples soup fn xs acc =
     acc @ map (example_of soup)
             (filter (\<lambda>i. str_in fn (text_of (descendants soup ! i))) xs)"
  by (induction xs arbitrary: acc) simp_all

lemma length_slice_to: "0 \<le> n \<Longrightarrow> int (length (slice_to xs (Some n))) \<le> n"
  by (simp add: slice_to_def)

lemma doc_extract_bound:
  assumes "0 \<le> n" and "dq_max_results q = Some n"
  shows "int (length (doc_extract q soup)) \<le> n"
proof -
  have p: "int (length (python_results (slice_to xs (Some n)) [])) \<le> n" for xs
    using length_python_results[of "slice_to xs (Some n)" "[]"] length_slice_to[OF assms(1), of xs]
    by simp
  have j: "int (length (javascript_results (slice_to xs (Some n)) [])) \<le> n" for xs
    using length_javascript_results[of "slice_to xs (Some n)" "[]"]
      length_slice_to[OF assms(1), of xs]
    by simp
  show ?thesis using p j assms by (simp add: doc_extract_def)
qed

lemma code_extract_bound:
  assumes "0 \<le> n" and "cq_max_examples c = Some n"
  shows "int (length (code_extract c language soup)) \<le> n"
proof -
  have "int (length (filter P (slice_to xs (Some n)))) \<le> n" for P and xs :: "nat list"
    using length_slice_to[OF assms(1), of xs] length_filter_le[of P "slice_to xs (Some n)"]
    by linarith
  then show ?thesis using assms by (simp add: code_extract_def python_examples_filter)
qed

text \<open>
  Claim C6, as amended. For a non-negative \<open>max_examples\<close> every result the
  code-example handler returns has at most that many examples. For a non-negative
  \<open>max_results\<close> every result the documentation handler returns has at most that
  many results when the query's key is not in the cache.
\<close>

theorem extraction_respects_bound:
  assumes "0 \<le> n"
  shows
  "(dq_max_results q = Some n \<and> DOC_CACHE s (cache_key_of q) = None \<longrightarrow>
      (\<forall>r. fst (search_documentation e q s) = Inr r \<longrightarrow>
         int (length (dr_results r)) \<le> n)) \<and>
   (cq_max_examples c = Some n \<longrightarrow>
      (\<forall>r. fst (get_code_examples e c s) = Inr r \<longrightarrow>
         int (length (cr_examples r)) \<le> n))"
proof (intro conjI impI allI)
  fix r
  assume a: "dq_max_results q = Some n \<and> DOC_CACHE s (cache_key_of q) = None"
    and ret: "fst (search_documentation e q s) = Inr r"
  show "int (length (dr_results r)) \<le> n"
  proof (cases rule: sd_cases[of s q e])
    case (hit r')
    then show ?thesis using a by simp
  next
    case unavailable
    then show ?thesis using assms ret by (auto simp: doc_unavailable_def)
  next
    case (caught base msg)
    then show ?thesis using assms ret by (auto simp: doc_exception_def)
  next
    case (propagated base msg)
    then show ?thesis using ret by simp
  next
    case (failed base resp)
    then show ?thesis using assms ret by (auto simp: doc_fetch_failed_def)
  next
    case (success base resp html soup)
    then show ?thesis using doc_extract_bound[OF assms, of q soup] a ret
      by (auto simp: doc_success_def)
  qed
next
  fix r
  assume a: "cq_max_examples c = Some n"
    and ret: "fst (get_code_examples e c s) = Inr r"
  show "int (length (cr_examples r)) \<le> n"
  proof (cases rule: gce_cases[of c e s])
    case (unavailable lang)
    then show ?thesis using assms ret by (auto simp: code_unavailable_def)
  next
    case (caught msg s')
    then show ?thesis using assms ret by (auto simp: code_exception_def)
  next
    case (propagated msg s')
    then show ?thesis using ret by simp
  next
    case (failed lang template resp)
    then show ?thesis using assms ret by (auto simp: code_fetch_failed_def)
  next
    case (success lang template resp html soup)
    then show ?thesis using code_extract_bound[OF assms a, of "lower lang" soup] ret
      by (auto simp: code_success_def)
  qed
qed

lemma sorted_query_run:
  "get_code_examples (reply 200 examples_page) sorted_query initial =
     (Inr (code_success sorted_query ''python'' examples_page),
      requested initial
        ''https://docs.python.org/3/search.html?q=sorted&check_keywords=yes&area=default'')"
proof -
  have lang: "cq_language sorted_query = Some ''python''"
    by (simp add: sorted_query_def)
  have l: "lower ''python'' = ''python''" by code_simp
  show ?thesis
    using gce_success[OF lang sorted_query_registered, of "reply 200 examples_page"
        "\<lparr>status = 200, body = Inr ''<html></html>''\<rparr>" "''<html></html>''"
        examples_page initial]
    by (simp add: l) (simp add: sorted_query_def)
qed

lemma sorted_query_examples:
  "code_extract sorted_query ''python'' examples_page =
     [[(''title'', ''Sorting''), (''code'', ''sorted(xs)''), (''language'', ''python'')]]"
  by code_simp

text \<open>C6 on the sample pages, from the empty cache.\<close>

theorem extraction_respects_bound_witness:
  "(\<exists>r. fst (search_documentation (reply 200 search_page) list_query initial) = Inr r \<and>
      length (dr_results r) = 2 \<and> int (length (dr_results r)) \<le> 5) \<and>
   length (select_pre examples_page) = 3 \<and>
   (\<exists>r. fst (get_code_examples (reply 200 examples_page) sorted_query initial) = Inr r \<and>
      length (cr_examples r) = 1 \<and> int (length (cr_examples r)) \<le> 2)"
proof -
  have n5: "(0::int) \<le> 5" and n2: "(0::int) \<le> 2" by simp_all
  have a: "dq_max_results list_query = Some 5 \<and> DOC_CACHE initial (cache_key_of list_query) = None"
    by (simp add: list_query_def initial_def)
  have b: "cq_max_examples sorted_query = Some 2"
    by (simp add: sorted_query_def)
  have rd: "fst (search_documentation (reply 200 search_page) list_query initial) =
      Inr (doc_success list_query search_page)"
    by (simp add: list_query_run)
  have rc: "fst (get_code_examples (reply 200 examples_page) sorted_query initial) =
      Inr (code_success sorted_query ''python'' examples_page)"
    by (simp add: sorted_query_run)
  note d = extraction_respects_bound [OF n5, THEN conjunct1, rule_format, OF a rd]
  note c = extraction_respects_bound [OF n2, THEN conjunct2, rule_format, OF b rc]
  have ld: "length (dr_results (doc_success list_query search_page)) = 2"
    by (simp add: doc_success_def list_query_results)
  have lc: "length (cr_examples (code_success sorted_query ''python'' examples_page)) = 1"
    by (simp add: code_success_def sorted_query_examples)
  have pre: "length (select_pre examples_page) = 3" by code_simp
  show ?thesis using rd rc d c ld lc pre by blast
qed

text \<open>
  C6 as stated fails. The cache key leaves \<open>max_results\<close> out: after a query
  with \<open>max_results = 5\<close> has stored two records, the same library and term with
  \<open>max_results = 1\<close> gets both of them.
\<close>

theorem cached_results_exceed_max_results:
  "reachable (snd (search_documentation (reply 200 search_page) list_query initial)) \<and>
   dq_max_results one_result_query = Some 1 \<and>
   (\<exists>r. fst (search_documentation (reply 200 search_page) one_result_query
       (snd (search_documentation (reply 200 search_page) list_query initial))) = Inr r \<and>
      length (dr_results r) = 2)"
proof -
  have r: "reachable (snd (search_documentation (reply 200 search_page) list_query initial))"
    by (rule reachable.docs[OF reachable.start])
  have k: "cache_key_of one_result_query = cache_key_of list_query"
    by (simp add: cache_key_of_def one_result_query_def list_query_def)
  have "search_documentation (reply 200 search_page) one_result_query
     (snd (search_documentation (reply 200 search_page) list_query initial)) =
     (Inr (doc_success list_query search_page),
      snd (search_documentation (reply 200 search_page) list_query initial))"
    by (rule sd_hit) (simp add: list_query_run k)
  then show ?thesis
    using r by (simp add: doc_success_def list_query_results one_result_query_def)
qed

lemma sd_fetch_logged:
  assumes "DOC_CACHE s (cache_key_of q) = None"
    and "map_of DOC_SOURCES (lower (dq_library q)) = Some base"
  shows "requests (snd (search_documentation e q s)) = requests s @ [doc_search_url q base]"
proof (cases rule: sd_cases[of s q e])
  case (hit r)
  then show ?thesis using assms by simp
next
  case unavailable
  then show ?thesis using assms by simp
next
  case (caught base' msg)
  then show ?thesis using assms by simp
next
  case (propagated base' msg)
  then show ?thesis using assms by simp
next
  case (failed base' resp)
  then show ?thesis using assms by simp
next
  case (success base' resp html soup)
  then show ?thesis using assms by simp
qed

text \<open>
  Claim C2, as amended. The documentation handler looks in the cache first, then in
  the registry, then fetches. A cached entry under the query's key is returned as it
  is, whether or not the library is registered. When the key is not cached and the
  lower-cased library is not registered, the handler returns the unsupported-library
  error and leaves the state alone. When the key is not cached and the library is
  registered, exactly one request is made, to the search URL.
\<close>

theorem cache_then_registry_then_fetch:
  "(DOC_CACHE s (cache_key_of q) = Some r \<longrightarrow>
      fst (search_documentation e q s) = Inr r \<and> snd (search_documentation e q s) = s) \<and>
   (DOC_CACHE s (cache_key_of q) = None \<and>
    map_of DOC_SOURCES (lower (dq_library q)) = None \<longrightarrow>
      fst (search_documentation e q s) =
        Inr \<lparr>dr_library = dq_library q, dr_term = dq_term q, dr_results = [],
         dr_error = Some (''Documentation for '' @ dq_library q @ '' is not available'')\<rparr> \<and>
      snd (search_documentation e q s) = s) \<and>
   (DOC_CACHE s (cache_key_of q) = None \<and>
    map_of DOC_SOURCES (lower (dq_library q)) = Some base \<longrightarrow>
      requests (snd (search_documentation e q s)) = requests s @ [doc_search_url q base])"
proof (intro conjI impI)
  assume "DOC_CACHE s (cache_key_of q) = Some r"
  then have "search_documentation e q s = (Inr r, s)" by (rule sd_hit)
  then show "fst (search_documentation e q s) = Inr r"
    and "snd (search_documentation e q s) = s"
    by simp_all
next
  assume "DOC_CACHE s (cache_key_of q) = None \<and>
    map_of DOC_SOURCES (lower (dq_library q)) = None"
  then have "search_documentation e q s = (Inr (doc_unavailable q), s)"
    using sd_unavailable[of s q e] by simp
  then show "fst (search_documentation e q s) =
        Inr \<lparr>dr_library = dq_library q, dr_term = dq_term q, dr_results = [],
         dr_error = Some (''Documentation for '' @ dq_library q @ '' is not available'')\<rparr>"
    and "snd (search_documentation e q s) = s"
    by (simp_all add: doc_unavailable_def)
next
  assume a: "DOC_CACHE s (cache_key_of q) = None \<and>
    map_of DOC_SOURCES (lower (dq_library q)) = Some base"
  show "requests (snd (search_documentation e q s)) = requests s @ [doc_search_url q base]"
    using a sd_fetch_logged[of s q base e] by simp
qed

lemma colon_term_query_run:
  "search_documentation (reply 200 search_page) colon_term_query initial =
     (Inr (doc_success colon_term_query search_page),
      (requested initial (doc_search_url colon_term_query ''https://docs.python.org/3/''))
        \<lparr>DOC_CACHE := (DOC_CACHE initial)(cache_key_of colon_term_query \<mapsto>
           doc_success colon_term_query search_page)\<rparr>)"
proof -
  have miss: "DOC_CACHE initial (cache_key_of colon_term_query) = None"
    by (simp add: initial_def)
  have reg: "map_of DOC_SOURCES (lower (dq_library colon_term_query)) =
      Some ''https://docs.python.org/3/''"
    by code_simp
  show ?thesis
    using sd_success[OF miss reg, of "reply 200 search_page"
        "\<lparr>status = 200, body = Inr ''<html></html>''\<rparr>" "''<html></html>''" search_page]
    by simp
qed

lemma colon_keys_collide: "cache_key_of colon_library_query = cache_key_of colon_term_query"
  by (simp add: cache_key_of_def colon_library_query_def colon_term_query_def)

text \<open>
  C2 as stated fails. The query \<open>library = python, term = a:b\<close> and the query
  \<open>library = python:a, term = b\<close> share the cache key \<open>python:a:b\<close>. After
  the first has been answered, the second, whose library is not registered, gets the
  cached result of the first, with no error, although the network is down.
\<close>

theorem unregistered_library_served_from_cache:
  "map_of DOC_SOURCES (lower (dq_library colon_library_query)) = None \<and>
   reachable (snd (search_documentation (reply 200 search_page) colon_term_query initial)) \<and>
   (\<exists>r. fst (search_documentation offline colon_library_query
       (snd (search_documentation (reply 200 search_page) colon_term_query initial))) = Inr r \<and>
      dr_error r = None \<and> dr_library r = ''python'')"
proof -
  have u: "map_of DOC_SOURCES (lower (dq_library colon_library_query)) = None"
    by code_simp
  have r: "reachable (snd (search_documentation (reply 200 search_page) colon_term_query initial))"
    by (rule reachable.docs[OF reachable.start])
  have "search_documentation offline colon_library_query
     (snd (search_documentation (reply 200 search_page) colon_term_query initial)) =
     (Inr (doc_success colon_term_query search_page),
      snd (search_documentation (reply 200 search_page) colon_term_query initial))"
    by (rule sd_hit) (simp add: colon_term_query_run colon_keys_collide)
  then show ?thesis
    using u r by (simp add: doc_success_def colon_term_query_def)
qed

text \<open>
  C2 on three runs: a cached key with an unregistered library, an unregistered
  library on the empty cache, and a registered library on the empty cache.
\<close>

theorem cache_then_registry_then_fetch_witness:
  "fst (search_documentation offline colon_library_query
     (snd (search_documentation (reply 200 search_page) colon_term_query initial))) =
     fst (search_documentation (reply 200 search_page) colon_term_query initial) \<and>
   fst (search_documentation offline rust_query initial) =
     Inr \<lparr>dr_library = ''Rust'', dr_term = ''vec'', dr_results = [],
      dr_error = Some ''Documentation for Rust is not available''\<rparr> \<and>
   snd (search_documentation offline rust_query initial) = initial \<and>
   requests (snd (search_documentation offline list_query initial)) =
     [''https://docs.python.org/3/search.html?q=list&check_keywords=yes&area=default'']"
proof -
  let ?first = "search_documentation (reply 200 search_page) colon_term_query initial"
  have h1: "DOC_CACHE (snd ?first) (cache_key_of colon_library_query) =
      Some (doc_success colon_term_query search_page)"
    by (simp add: colon_term_query_run colon_keys_collide)
  have h2: "DOC_CACHE initial (cache_key_of rust_query) = None \<and>
      map_of DOC_SOURCES (lower (dq_library rust_query)) = None"
  proof
    show "DOC_CACHE initial (cache_key_of rust_query) = None" by (simp add: initial_def)
    show "map_of DOC_SOURCES (lower (dq_library rust_query)) = None" by code_simp
  qed
  have h3: "DOC_CACHE initial (cache_key_of list_query) = None \<and>
      map_of DOC_SOURCES (lower (dq_library list_query)) = Some ''https://docs.python.org/3/''"
    using list_query_registered by (simp add: initial_def)
  note c1 = cache_then_registry_then_fetch [THEN conjunct1, rule_format, OF h1, of offline]
  note c2 = cache_then_registry_then_fetch [THEN conjunct2, THEN conjunct1, rule_format, OF h2,
      of offline]
  note c3 = cache_then_registry_then_fetch [THEN conjunct2, THEN conjunct2, rule_format, OF h3,
      of offline]
  have a: "fst (search_documentation offline colon_library_query (snd ?first)) = fst ?first"
    using c1 [THEN conjunct1] by (simp add: colon_term_query_run)
  have b: "fst (search_documentation offline rust_query initial) =
     Inr \<lparr>dr_library = ''Rust'', dr_term = ''vec'', dr_results = [],
      dr_error = Some ''Documentation for Rust is not available''\<rparr>"
    using c2 [THEN conjunct1] by (simp add: rust_query_def)
  have c: "requests (snd (search_documentation offline list_query initial)) =
     [''https://docs.python.org/3/search.html?q=list&check_keywords=yes&area=default'']"
    using c3 by (simp add: list_query_url initial_def)
  show ?thesis using a b c c2 [THEN conjunct2] by blast
qed

lemma gce_cache [simp]: "DOC_CACHE (snd (get_code_examples e c s)) = DOC_CACHE s"
  by (cases rule: gce_cases[of c e s]) simp_all

text \<open>What every reachable cache satisfies.\<close>

lemma reachable_cache:
  "reachable s \<Longrightarrow> DOC_CACHE s k = Some r \<Longrightarrow>
     dr_error r = None \<and> map_of DOC_SOURCES (lower (dr_library r)) \<noteq> None"
proof (induction arbitrary: k r rule: reachable.induct)
  case start
  then show ?case by (simp add: initial_def)
next
  case (docs s e query)
  show ?case
  proof (cases rule: sd_cases[of s query e])
    case (hit r')
    then show ?thesis using docs by simp
  next
    case unavailable
    then show ?thesis using docs by simp
  next
    case (caught base msg)
    then show ?thesis using docs by simp
  next
    case (propagated base msg)
    then show ?thesis using docs by simp
  next
    case (failed base resp)
    then show ?thesis using docs by simp
  next
    case (success base resp html soup)
    then show ?thesis using docs
      by (cases "k = cache_key_of query") (auto simp: doc_success_def)
  qed
next
  case (examples s e query)
  then show ?case by simp
qed

text \<open>
  An exception that leaves the body of a \<open>try\<close> block was raised by the network,
  by the decoding of the body or by the parser; in the code-example handler it may
  also be the AttributeError of \<open>None.lower()\<close>.
\<close>

lemma sdt_raised_by:
  assumes "search_documentation_try e q s = (Inl ex, s')"
  shows "(\<exists>url. session_get e url = Inl ex) \<or>
         (\<exists>url resp. session_get e url = Inr resp \<and> body resp = Inl ex) \<or>
         (\<exists>html. BeautifulSoup e html = Inl ex)"
  using assms
  by (auto simp: search_documentation_try_def Let_def
      split: option.splits if_splits sum.splits)

lemma gcet_raised_by:
  assumes "get_code_examples_try e c s = (Inl ex, s')"
  shows "ex = none_lower \<or> (\<exists>url. session_get e url = Inl ex) \<or>
         (\<exists>url resp. session_get e url = Inr resp \<and> body resp = Inl ex) \<or>
         (\<exists>html. BeautifulSoup e html = Inl ex)"
  using assms
  by (auto simp: get_code_examples_try_def Let_def
      split: option.splits if_splits sum.splits)

text \<open>
  Claim C7, as amended. In every reachable state, for every query, network and
  parser: if every exception that the network, the decoding of the body and the parser
  raise is an instance of \<open>Exception\<close>, both handlers return a result. When the
  body of the \<open>try\<close> block raises an instance of \<open>Exception\<close> with message
  \<open>msg\<close>, the handler returns the result with an empty list and the error
  \<open>msg\<close>; when it raises an exception that is not an instance of \<open>Exception\<close>,
  that exception leaves the handler. Whenever the error of a returned result is set,
  its list is empty.
\<close>

theorem handlers_normalise_every_Exception:
  assumes "reachable s"
  shows
  "((\<forall>url ex. session_get e url = Inl ex \<longrightarrow> (\<exists>msg. ex = Exception msg)) \<and>
    (\<forall>url resp ex. session_get e url = Inr resp \<and> body resp = Inl ex \<longrightarrow>
       (\<exists>msg. ex = Exception msg)) \<and>
    (\<forall>html ex. BeautifulSoup e html = Inl ex \<longrightarrow> (\<exists>msg. ex = Exception msg)) \<longrightarrow>
      (\<exists>r s'. search_documentation e q s = (Inr r, s')) \<and>
      (\<exists>r s'. get_code_examples e c s = (Inr r, s'))) \<and>
   (\<forall>msg s'. search_documentation_try e q s = (Inl (Exception msg), s') \<longrightarrow>
      search_documentation e q s =
        (Inr \<lparr>dr_library = dq_library q, dr_term = dq_term q, dr_results = [],
              dr_error = Some msg\<rparr>, s')) \<and>
   (\<forall>msg s'. search_documentation_try e q s = (Inl (BaseException msg), s') \<longrightarrow>
      search_documentation e q s = (Inl (BaseException msg), s')) \<and>
   (\<forall>r. fst (search_documentation e q s) = Inr r \<and> dr_error r \<noteq> None \<longrightarrow>
      dr_results r = []) \<and>
   (\<forall>msg s'. get_code_examples_try e c s = (Inl (Exception msg), s') \<longrightarrow>
      get_code_examples e c s =
        (Inr \<lparr>cr_library = cq_library c, cr_function = cq_function c, cr_examples = [],
              cr_error = Some msg\<rparr>, s')) \<and>
   (\<forall>msg s'. get_code_examples_try e c s = (Inl (BaseException msg), s') \<longrightarrow>
      get_code_examples e c s = (Inl (BaseException msg), s')) \<and>
   (\<forall>r. fst (get_code_examples e c s) = Inr r \<and> cr_error r \<noteq> None \<longrightarrow>
      cr_examples r = [])"
proof (intro conjI impI allI)
  assume env: "(\<forall>url ex. session_get e url = Inl ex \<longrightarrow> (\<exists>msg. ex = Exception msg)) \<and>
    (\<forall>url resp ex. session_get e url = Inr resp \<and> body resp = Inl ex \<longrightarrow>
       (\<exists>msg. ex = Exception msg)) \<and>
    (\<forall>html ex. BeautifulSoup e html = Inl ex \<longrightarrow> (\<exists>msg. ex = Exception msg))"
  show "\<exists>r s'. search_documentation e q s = (Inr r, s')"
  proof (cases rule: sd_cases[of s q e])
    case (propagated base msg)
    then have "\<exists>m. BaseException msg = Exception m"
      using sdt_raised_by[OF propagated(3)] env by blast
    then show ?thesis by simp
  qed blast+
  show "\<exists>r s'. get_code_examples e c s = (Inr r, s')"
  proof (cases rule: gce_cases[of c e s])
    case (propagated msg s')
    have "BaseException msg \<noteq> none_lower" by (simp add: none_lower_def)
    then have "\<exists>m. BaseException msg = Exception m"
      using gcet_raised_by[OF propagated(1)] env by blast
    then show ?thesis by simp
  qed blast+
next
  fix msg s'
  assume "search_documentation_try e q s = (Inl (Exception msg), s')"
  then show "search_documentation e q s =
        (Inr \<lparr>dr_library = dq_library q, dr_term = dq_term q, dr_results = [],
              dr_error = Some msg\<rparr>, s')"
    using sd_caught[of e q s msg s'] by (simp add: doc_exception_def)
next
  fix msg s'
  assume "search_documentation_try e q s = (Inl (BaseException msg), s')"
  then show "search_documentation e q s = (Inl (BaseException msg), s')"
    by (rule sd_propagated)
next
  fix r
  assume a: "fst (search_documentation e q s) = Inr r \<and> dr_error r \<noteq> None"
  show "dr_results r = []"
  proof (cases rule: sd_cases[of s q e])
    case (hit r')
    then show ?thesis using reachable_cache[OF assms hit(1)] a by simp
  next
    case unavailable
    then show ?thesis using a by (auto simp: doc_unavailable_def)
  next
    case (caught base msg)
    then show ?thesis using a by (auto simp: doc_exception_def)
  next
    case (propagated base msg)
    then show ?thesis using a by simp
  next
    case (failed base resp)
    then show ?thesis using a by (auto simp: doc_fetch_failed_def)
  next
    case (success base resp html soup)
    then show ?thesis using a by (auto simp: doc_success_def)
  qed
next
  fix msg s'
  assume "get_code_examples_try e c s = (Inl (Exception msg), s')"
  then show "get_code_examples e c s =
        (Inr \<lparr>cr_library = cq_library c, cr_function = cq_function c, cr_examples = [],
              cr_error = Some msg\<rparr>, s')"
    using gce_caught[of e c s msg s'] by (simp add: code_exception_def)
next
  fix msg s'
  assume "get_code_examples_try e c s = (Inl (BaseException msg), s')"
  then show "get_code_examples e c s = (Inl (BaseException msg), s')"
    by (rule gce_propagated)
next
  fix r
  assume a: "fst (get_code_examples e c s) = Inr r \<and> cr_error r \<noteq> None"
  show "cr_examples r = []"
  proof (cases rule: gce_cases[of c e s])
    case (unavailable lang)
    then show ?thesis using a by (auto simp: code_unavailable_def)
  next
    case (caught msg s')
    then show ?thesis using a by (auto simp: code_exception_def)
  next
    case (propagated msg s')
    then show ?thesis using a by simp
  next
    case (failed lang template resp)
    then show ?thesis using a by (auto simp: code_fetch_failed_def)
  next
    case (success lang template resp html soup)
    then show ?thesis using a by (auto simp: code_success_def)
  qed
qed

lemma offline_get [simp]: "session_get offline url = Inl (Exception ''Cannot connect to host'')"
  by (simp add: offline_def)

lemma offline_parse [simp]: "BeautifulSoup offline html = Inr (Tag ''[document]'' [] None [])"
  by (simp add: offline_def)

text \<open>
  C7 when \<open>session.get\<close> raises a connection error in the documentation handler,
  and when the language is \<open>None\<close> in the code-example handler.
\<close>

theorem handlers_normalise_every_Exception_witness:
  "reachable initial \<and>
   search_documentation_try offline list_query initial =
     (Inl (Exception ''Cannot connect to host''),
      requested initial (doc_search_url list_query ''https://docs.python.org/3/'')) \<and>
   fst (search_documentation offline list_query initial) =
     Inr \<lparr>dr_library = ''python'', dr_term = ''list'', dr_results = [],
          dr_error = Some ''Cannot connect to host''\<rparr> \<and>
   get_code_examples_try offline no_language_query initial = (Inl none_lower, initial) \<and>
   fst (get_code_examples offline no_language_query initial) =
     Inr \<lparr>cr_library = ''python'', cr_function = ''sorted'', cr_examples = [],
          cr_error = Some (str none_lower)\<rparr> \<and>
   (\<exists>r s'. search_documentation offline list_query initial = (Inr r, s')) \<and>
   (\<exists>r s'. get_code_examples offline no_language_query initial = (Inr r, s'))"
proof -
  have miss: "DOC_CACHE initial (cache_key_of list_query) = None"
    by (simp add: initial_def)
  have t: "search_documentation_try offline list_query initial =
      (Inl (Exception ''Cannot connect to host''),
       requested initial (doc_search_url list_query ''https://docs.python.org/3/''))"
    by (simp add: sdt_fetch[OF miss list_query_registered])
  have u: "get_code_examples_try offline no_language_query initial = (Inl none_lower, initial)"
    by (simp add: get_code_examples_try_def no_language_query_def)
  have u': "get_code_examples_try offline no_language_query initial =
      (Inl (Exception (str none_lower)), initial)"
    using u by (simp add: none_lower_def)
  have env: "(\<forall>url ex. session_get offline url = Inl ex \<longrightarrow> (\<exists>msg. ex = Exception msg)) \<and>
    (\<forall>url resp ex. session_get offline url = Inr resp \<and> body resp = Inl ex \<longrightarrow>
       (\<exists>msg. ex = Exception msg)) \<and>
    (\<forall>html ex. BeautifulSoup offline html = Inl ex \<longrightarrow> (\<exists>msg. ex = Exception msg))"
    by simp
  note inst = handlers_normalise_every_Exception [OF reachable.start, of offline list_query
      no_language_query]
  note returns = inst [THEN conjunct1, rule_format, OF env]
  note d = inst [THEN conjunct2, THEN conjunct1, rule_format, OF t]
  note c = inst [THEN conjunct2, THEN conjunct2, THEN conjunct2, THEN conjunct2,
      THEN conjunct1, rule_format, OF u']
  have d1: "fst (search_documentation offline list_query initial) =
     Inr \<lparr>dr_library = ''python'', dr_term = ''list'', dr_results = [],
          dr_error = Some ''Cannot connect to host''\<rparr>"
    using d by (simp add: list_query_def)
  have c1: "fst (get_code_examples offline no_language_query initial) =
     Inr \<lparr>cr_library = ''python'', cr_function = ''sorted'', cr_examples = [],
          cr_error = Some (str none_lower)\<rparr>"
    using c by (simp add: no_language_query_def)
  show ?thesis using reachable.start t u d1 c1 returns by blast
qed

lemma cancelled_get [simp]: "session_get cancelled url = Inl (BaseException ''CancelledError'')"
  by (simp add: cancelled_def)

text \<open>
  C7 as stated fails. When the request is cancelled, \<open>session.get\<close> raises
  \<open>asyncio.CancelledError\<close>, which is not an instance of \<open>Exception\<close>: neither
  handler returns a result, the exception leaves it.
\<close>

theorem cancellation_leaves_the_handlers:
  "reachable initial \<and>
   fst (search_documentation cancelled list_query initial) =
     Inl (BaseException ''CancelledError'') \<and>
   \<not> (\<exists>r. fst (search_documentation cancelled list_query initial) = Inr r) \<and>
   fst (get_code_examples cancelled sorted_query initial) =
     Inl (BaseException ''CancelledError'') \<and>
   \<not> (\<exists>r. fst (get_code_examples cancelled sorted_query initial) = Inr r)"
proof -
  have miss: "DOC_CACHE initial (cache_key_of list_query) = None"
    by (simp add: initial_def)
  have t: "search_documentation_try cancelled list_query initial =
      (Inl (BaseException ''CancelledError''),
       requested initial (doc_search_url list_query ''https://docs.python.org/3/''))"
    by (simp add: sdt_fetch[OF miss list_query_registered])
  have lang: "cq_language sorted_query = Some ''python''"
    by (simp add: sorted_query_def)
  have u: "get_code_examples_try cancelled sorted_query initial =
      (Inl (BaseException ''CancelledError''),
       requested initial
         (format1 ''https://docs.python.org/3/search.html?q={}&check_keywords=yes&area=default''
            (cq_function sorted_query)))"
    by (simp add: gcet_fetch[OF lang sorted_query_registered])
  have d: "fst (search_documentation cancelled list_query initial) =
     Inl (BaseException ''CancelledError'')"
    using sd_propagated[OF t] by simp
  have c: "fst (get_code_examples cancelled sorted_query initial) =
     Inl (BaseException ''CancelledError'')"
    using gce_propagated[OF u] by simp
  show ?thesis using reachable.start d c by simp
qed

text \<open>
  Claim C9. Every entry of a reachable cache has no error and a library whose
  lower-cased name is in \<open>DOC_SOURCES\<close>. A run of the documentation handler
  changes the cache only when the fetch was answered with 200 and the body decoded and
  parsed, and then it stores the success result under the query's key. The
  code-example handler never changes the cache.
\<close>

theorem cache_holds_only_successes:
  "(reachable s \<longrightarrow>
      (\<forall>k r. DOC_CACHE s k = Some r \<longrightarrow>
         dr_error r = None \<and> map_of DOC_SOURCES (lower (dr_library r)) \<noteq> None)) \<and>
   (DOC_CACHE (snd (search_documentation e q s)) \<noteq> DOC_CACHE s \<longrightarrow>
      (\<exists>base resp html soup.
         map_of DOC_SOURCES (lower (dq_library q)) = Some base \<and>
         session_get e (doc_search_url q base) = Inr resp \<and> status resp = 200 \<and>
         body resp = Inr html \<and> BeautifulSoup e html = Inr soup \<and>
         DOC_CACHE (snd (search_documentation e q s)) =
           (DOC_CACHE s)(cache_key_of q \<mapsto>
              \<lparr>dr_library = dq_library q, dr_term = dq_term q,
               dr_results = doc_extract q soup, dr_error = None\<rparr>))) \<and>
   DOC_CACHE (snd (get_code_examples e c s)) = DOC_CACHE s"
proof (intro conjI impI allI)
  fix k r
  assume "reachable s" and "DOC_CACHE s k = Some r"
  then show "dr_error r = None" and "map_of DOC_SOURCES (lower (dr_library r)) \<noteq> None"
    using reachable_cache by blast+
next
  assume changed: "DOC_CACHE (snd (search_documentation e q s)) \<noteq> DOC_CACHE s"
  show "\<exists>base resp html soup.
         map_of DOC_SOURCES (lower (dq_library q)) = Some base \<and>
         session_get e (doc_search_url q base) = Inr resp \<and> status resp = 200 \<and>
         body resp = Inr html \<and> BeautifulSoup e html = Inr soup \<and>
         DOC_CACHE (snd (search_documentation e q s)) =
           (DOC_CACHE s)(cache_key_of q \<mapsto>
              \<lparr>dr_library = dq_library q, dr_term = dq_term q,
               dr_results = doc_extract q soup, dr_error = None\<rparr>)"
  proof (cases rule: sd_cases[of s q e])
    case (hit r)
    then show ?thesis using changed by simp
  next
    case unavailable
    then show ?thesis using changed by simp
  next
    case (caught base msg)
    then show ?thesis using changed by simp
  next
    case (propagated base msg)
    then show ?thesis using changed by simp
  next
    case (failed base resp)
    then show ?thesis using changed by simp
  next
    case (success base resp html soup)
    then show ?thesis by (simp add: doc_success_def)
  qed
next
  show "DOC_CACHE (snd (get_code_examples e c s)) = DOC_CACHE s" by simp
qed

text \<open>C9 on the state reached by one successful documentation query.\<close>

theorem cache_holds_only_successes_witness:
  "reachable (snd (search_documentation (reply 200 search_page) list_query initial)) \<and>
   DOC_CACHE (snd (search_documentation (reply 200 search_page) list_query initial))
     ''python:list'' = Some (doc_success list_query search_page) \<and>
   dr_error (doc_success list_query search_page) = None \<and>
   map_of DOC_SOURCES (lower (dr_library (doc_success list_query search_page))) \<noteq> None \<and>
   DOC_CACHE (snd (search_documentation (reply 200 search_page) list_query initial)) \<noteq>
     DOC_CACHE initial"
proof -
  let ?s1 = "snd (search_documentation (reply 200 search_page) list_query initial)"
  have r: "reachable ?s1"
    by (rule reachable.docs[OF reachable.start])
  have k: "cache_key_of list_query = ''python:list''"
    by (simp add: cache_key_of_def list_query_def)
  have stored: "DOC_CACHE ?s1 ''python:list'' = Some (doc_success list_query search_page)"
    by (simp add: list_query_run k)
  have changed: "DOC_CACHE ?s1 \<noteq> DOC_CACHE initial"
  proof
    assume "DOC_CACHE ?s1 = DOC_CACHE initial"
    then have "DOC_CACHE ?s1 ''python:list'' = DOC_CACHE initial ''python:list''" by simp
    then show False using stored by (simp add: initial_def)
  qed
  note inv = cache_holds_only_successes [THEN conjunct1, rule_format, OF r stored]
  note step = cache_holds_only_successes [THEN conjunct2, THEN conjunct1, rule_format,
      OF changed]
  show ?thesis using r stored changed inv step by simp
qed

text \<open>
  Claim C8, as amended. For a registered library other than \<open>python\<close> and
  \<open>javascript\<close> (after lower-casing), a fetch answered with 200 whose body decodes
  and parses without raising gives a result with no records and no error; likewise
  for a registered language other than \<open>python\<close>. The error is \<open>None\<close>, so
  the result differs from the unsupported-library and unsupported-language results,
  whose error is set.
\<close>

theorem no_strategy_gives_empty_success:
  "(DOC_CACHE s (cache_key_of q) = None \<and>
    map_of DOC_SOURCES (lower (dq_library q)) = Some base \<and>
    lower (dq_library q) \<noteq> ''python'' \<and> lower (dq_library q) \<noteq> ''javascript'' \<and>
    session_get e (doc_search_url q base) = Inr resp \<and> status resp = 200 \<and>
    body resp = Inr html \<and> BeautifulSoup e html = Inr soup \<longrightarrow>
      (\<exists>r. fst (search_documentation e q s) = Inr r \<and>
           dr_results r = [] \<and> dr_error r = None)) \<and>
   (cq_language c = Some lang \<and>
    map_of CODE_EXAMPLE_SOURCES (lower lang) = Some template \<and>
    lower lang \<noteq> ''python'' \<and>
    session_get e' (format1 template (cq_function c)) = Inr resp' \<and> status resp' = 200 \<and>
    body resp' = Inr html' \<and> BeautifulSoup e' html' = Inr soup' \<longrightarrow>
      (\<exists>r. fst (get_code_examples e' c s) = Inr r \<and>
           cr_examples r = [] \<and> cr_error r = None))"
proof (intro conjI impI)
  assume a: "DOC_CACHE s (cache_key_of q) = None \<and>
    map_of DOC_SOURCES (lower (dq_library q)) = Some base \<and>
    lower (dq_library q) \<noteq> ''python'' \<and> lower (dq_library q) \<noteq> ''javascript'' \<and>
    session_get e (doc_search_url q base) = Inr resp \<and> status resp = 200 \<and>
    body resp = Inr html \<and> BeautifulSoup e html = Inr soup"
  then have run: "fst (search_documentation e q s) = Inr (doc_success q soup)"
    using sd_success[of s q base e resp html soup] by simp
  show "\<exists>r. fst (search_documentation e q s) = Inr r \<and>
           dr_results r = [] \<and> dr_error r = None"
    using a by (simp add: run doc_success_def doc_extract_def)
next
  assume a: "cq_language c = Some lang \<and>
    map_of CODE_EXAMPLE_SOURCES (lower lang) = Some template \<and>
    lower lang \<noteq> ''python'' \<and>
    session_get e' (format1 template (cq_function c)) = Inr resp' \<and> status resp' = 200 \<and>
    body resp' = Inr html' \<and> BeautifulSoup e' html' = Inr soup'"
  then have run: "fst (get_code_examples e' c s) = Inr (code_success c (lower lang) soup')"
    using gce_success[of c lang template e' resp' html' soup' s] by simp
  show "\<exists>r. fst (get_code_examples e' c s) = Inr r \<and>
           cr_examples r = [] \<and> cr_error r = None"
    using a by (simp add: run code_success_def code_extract_def)
qed

lemma react_query_registered:
  "map_of DOC_SOURCES (lower (dq_library react_query)) = Some ''https://reactjs.org/docs/''"
  by code_simp

lemma react_query_no_strategy:
  "lower (dq_library react_query) \<noteq> ''python''"
  "lower (dq_library react_query) \<noteq> ''javascript''"
  by code_simp+

lemma nodejs_registered:
  "map_of CODE_EXAMPLE_SOURCES (lower ''nodejs'') =
     Some ''https://nodejs.org/api/all.html#all_{}''"
  by code_simp

lemma nodejs_no_strategy: "lower ''nodejs'' \<noteq> ''python''"
  by code_simp

text \<open>
  C8 for \<open>React\<close> and \<open>nodejs\<close>, on pages that do hold list items and
  \<open>pre\<close> blocks.
\<close>

theorem no_strategy_gives_empty_success_witness:
  "select_ul_search_li search_page \<noteq> [] \<and>
   fst (search_documentation (reply 200 search_page) react_query initial) =
     Inr \<lparr>dr_library = ''React'', dr_term = ''hooks'', dr_results = [], dr_error = None\<rparr> \<and>
   select_pre examples_page \<noteq> [] \<and>
   (\<exists>r. fst (get_code_examples (reply 200 examples_page) nodejs_query initial) = Inr r \<and>
      cr_examples r = [] \<and> cr_error r = None)"
proof -
  let ?resp = "\<lparr>status = 200, body = Inr ''<html></html>''\<rparr>"
  have h1: "DOC_CACHE initial (cache_key_of react_query) = None \<and>
    map_of DOC_SOURCES (lower (dq_library react_query)) = Some ''https://reactjs.org/docs/'' \<and>
    lower (dq_library react_query) \<noteq> ''python'' \<and>
    lower (dq_library react_query) \<noteq> ''javascript'' \<and>
    session_get (reply 200 search_page)
      (doc_search_url react_query ''https://reactjs.org/docs/'') = Inr ?resp \<and>
    status ?resp = 200 \<and> body ?resp = Inr ''<html></html>'' \<and>
    BeautifulSoup (reply 200 search_page) ''<html></html>'' = Inr search_page"
    using react_query_registered react_query_no_strategy by (simp add: initial_def)
  have h2: "cq_language nodejs_query = Some ''nodejs'' \<and>
    map_of CODE_EXAMPLE_SOURCES (lower ''nodejs'') = Some ''https://nodejs.org/api/all.html#all_{}'' \<and>
    lower ''nodejs'' \<noteq> ''python'' \<and>
    session_get (reply 200 examples_page)
      (format1 ''https://nodejs.org/api/all.html#all_{}'' (cq_function nodejs_query)) = Inr ?resp \<and>
    status ?resp = 200 \<and> body ?resp = Inr ''<html></html>'' \<and>
    BeautifulSoup (reply 200 examples_page) ''<html></html>'' = Inr examples_page"
    using nodejs_registered nodejs_no_strategy by (simp add: nodejs_query_def)
  note d = no_strategy_gives_empty_success [THEN conjunct1, rule_format, OF h1]
  note c = no_strategy_gives_empty_success [THEN conjunct2, rule_format, OF h2, of initial]
  have run: "fst (search_documentation (reply 200 search_page) react_query initial) =
      Inr (doc_success react_query search_page)"
    using sd_success[of initial react_query "''https://reactjs.org/docs/''"
        "reply 200 search_page" ?resp "''<html></html>''" search_page] h1
    by simp
  have d1: "fst (search_documentation (reply 200 search_page) react_query initial) =
     Inr \<lparr>dr_library = ''React'', dr_term = ''hooks'', dr_results = [], dr_error = None\<rparr>"
  proof -
    from d obtain r where r: "fst (search_documentation (reply 200 search_page) react_query
        initial) = Inr r" "dr_results r = []" "dr_error r = None"
      by blast
    have "r = doc_success react_query search_page" using r(1) run by simp
    then have "doc_extract react_query search_page = []"
      using r(2) by (simp add: doc_success_def)
    then show ?thesis using run by (simp add: doc_success_def react_query_def)
  qed
  have li: "select_ul_search_li search_page \<noteq> []" by code_simp
  have pre: "select_pre examples_page \<noteq> []" by code_simp
  show ?thesis
    using d1 c li pre by blast
qed

lemma undecodable_get [simp]:
  "session_get undecodable url =
     Inr \<lparr>status = 200, body = Inl (Exception ''invalid start byte'')\<rparr>"
  by (simp add: undecodable_def)

text \<open>
  C8 as stated fails. The fetch is answered with status 200, but decoding the body
  raises inside the \<open>try\<close> block: for the registered library \<open>React\<close> and the
  registered language \<open>nodejs\<close> the handlers return a result whose error is set.
\<close>

theorem status_200_with_undecodable_body:
  "map_of DOC_SOURCES (lower (dq_library react_query)) = Some ''https://reactjs.org/docs/'' \<and>
   lower (dq_library react_query) \<noteq> ''python'' \<and>
   lower (dq_library react_query) \<noteq> ''javascript'' \<and>
   (\<exists>resp. session_get undecodable
        (doc_search_url react_query ''https://reactjs.org/docs/'') = Inr resp \<and>
      status resp = 200) \<and>
   fst (search_documentation undecodable react_query initial) =
     Inr \<lparr>dr_library = ''React'', dr_term = ''hooks'', dr_results = [],
          dr_error = Some ''invalid start byte''\<rparr> \<and>
   map_of CODE_EXAMPLE_SOURCES (lower ''nodejs'') =
     Some ''https://nodejs.org/api/all.html#all_{}'' \<and>
   lower ''nodejs'' \<noteq> ''python'' \<and>
   fst (get_code_examples undecodable nodejs_query initial) =
     Inr \<lparr>cr_library = ''node'', cr_function = ''sorted'', cr_examples = [],
          cr_error = Some ''invalid start byte''\<rparr>"
proof -
  have miss: "DOC_CACHE initial (cache_key_of react_query) = None"
    by (simp add: initial_def)
  have t: "search_documentation_try undecodable react_query initial =
      (Inl (Exception ''invalid start byte''),
       requested initial (doc_search_url react_query ''https://reactjs.org/docs/''))"
    by (simp add: sdt_fetch[OF miss react_query_registered])
  have lang: "cq_language nodejs_query = Some ''nodejs''"
    by (simp add: nodejs_query_def)
  have u: "get_code_examples_try undecodable nodejs_query initial =
      (Inl (Exception ''invalid start byte''),
       requested initial
         (format1 ''https://nodejs.org/api/all.html#all_{}'' (cq_function nodejs_query)))"
    by (simp add: gcet_fetch[OF lang nodejs_registered])
  have d: "fst (search_documentation undecodable react_query initial) =
     Inr \<lparr>dr_library = ''React'', dr_term = ''hooks'', dr_results = [],
          dr_error = Some ''invalid start byte''\<rparr>"
    using sd_caught[OF t] by (simp add: doc_exception_def react_query_def)
  have c: "fst (get_code_examples undecodable nodejs_query initial) =
     Inr \<lparr>cr_library = ''node'', cr_function = ''sorted'', cr_examples = [],
          cr_error = Some ''invalid start byte''\<rparr>"
    using gce_caught[OF u] by (simp add: code_exception_def nodejs_query_def)
  have g: "\<exists>resp. session_get undecodable
        (doc_search_url react_query ''https://reactjs.org/docs/'') = Inr resp \<and>
      status resp = 200"
    by simp
  show ?thesis
    using react_query_registered react_query_no_strategy nodejs_registered nodejs_no_strategy
      d c g
    by blast
qed

text \<open>
  Claim C10. Two documentation queries with the same term whose libraries differ,
  but agree after lower-casing, have different cache keys. If the second key is not
  cached before the first query runs, it is not cached after it either, so the second
  query makes a request of its own. When both fetches succeed, the cache afterwards
  holds each result under its own key.
\<close>

theorem cache_key_keeps_letter_case:
  assumes "lower (dq_library q1) = lower (dq_library q2)"
    and "dq_library q1 \<noteq> dq_library q2"
    and "dq_term q1 = dq_term q2"
  shows
  "cache_key_of q1 \<noteq> cache_key_of q2 \<and>
   (DOC_CACHE s (cache_key_of q2) = None \<and>
    map_of DOC_SOURCES (lower (dq_library q2)) = Some base \<longrightarrow>
      DOC_CACHE (snd (search_documentation e1 q1 s)) (cache_key_of q2) = None \<and>
      requests (snd (search_documentation e2 q2 (snd (search_documentation e1 q1 s)))) =
        requests (snd (search_documentation e1 q1 s)) @ [doc_search_url q2 base]) \<and>
   (DOC_CACHE s (cache_key_of q1) = None \<and> DOC_CACHE s (cache_key_of q2) = None \<and>
    map_of DOC_SOURCES (lower (dq_library q2)) = Some base \<and>
    session_get e1 (doc_search_url q1 base) = Inr resp1 \<and> status resp1 = 200 \<and>
    body resp1 = Inr html1 \<and> BeautifulSoup e1 html1 = Inr soup1 \<and>
    session_get e2 (doc_search_url q2 base) = Inr resp2 \<and> status resp2 = 200 \<and>
    body resp2 = Inr html2 \<and> BeautifulSoup e2 html2 = Inr soup2 \<longrightarrow>
      (\<exists>r1 r2.
         fst (search_documentation e1 q1 s) = Inr r1 \<and>
         fst (search_documentation e2 q2 (snd (search_documentation e1 q1 s))) = Inr r2 \<and>
         DOC_CACHE (snd (search_documentation e2 q2 (snd (search_documentation e1 q1 s))))
           (cache_key_of q1) = Some r1 \<and>
         DOC_CACHE (snd (search_documentation e2 q2 (snd (search_documentation e1 q1 s))))
           (cache_key_of q2) = Some r2))"
proof (intro conjI impI)
  show keys: "cache_key_of q1 \<noteq> cache_key_of q2"
    using assms(2,3) by (simp add: cache_key_of_def)
  have kept: "DOC_CACHE (snd (search_documentation e1 q1 s)) (cache_key_of q2) = None"
    if "DOC_CACHE s (cache_key_of q2) = None"
  proof (cases rule: sd_cases[of s q1 e1])
    case (hit r)
    then show ?thesis using that by simp
  next
    case unavailable
    then show ?thesis using that by simp
  next
    case (caught base msg)
    then show ?thesis using that by simp
  next
    case (propagated base msg)
    then show ?thesis using that by simp
  next
    case (failed base resp)
    then show ?thesis using that by simp
  next
    case (success base resp html soup)
    then show ?thesis using that keys by simp
  qed
  {
    assume a: "DOC_CACHE s (cache_key_of q2) = None \<and>
      map_of DOC_SOURCES (lower (dq_library q2)) = Some base"
    show "DOC_CACHE (snd (search_documentation e1 q1 s)) (cache_key_of q2) = None"
      using a kept by simp
    have "DOC_CACHE (snd (search_documentation e1 q1 s)) (cache_key_of q2) = None \<and>
      map_of DOC_SOURCES (lower (dq_library q2)) = Some base"
      using a kept by simp
    then show "requests (snd (search_documentation e2 q2 (snd (search_documentation e1 q1 s)))) =
        requests (snd (search_documentation e1 q1 s)) @ [doc_search_url q2 base]"
      using sd_fetch_logged by blast
  }
  {
    assume a: "DOC_CACHE s (cache_key_of q1) = None \<and> DOC_CACHE s (cache_key_of q2) = None \<and>
      map_of DOC_SOURCES (lower (dq_library q2)) = Some base \<and>
      session_get e1 (doc_search_url q1 base) = Inr resp1 \<and> status resp1 = 200 \<and>
      body resp1 = Inr html1 \<and> BeautifulSoup e1 html1 = Inr soup1 \<and>
      session_get e2 (doc_search_url q2 base) = Inr resp2 \<and> status resp2 = 200 \<and>
      body resp2 = Inr html2 \<and> BeautifulSoup e2 html2 = Inr soup2"
    define s1 where "s1 = snd (search_documentation e1 q1 s)"
    have reg1: "map_of DOC_SOURCES (lower (dq_library q1)) = Some base"
      using a assms(1) by simp
    have first: "search_documentation e1 q1 s =
      (Inr (doc_success q1 soup1),
       (requested s (doc_search_url q1 base))
         \<lparr>DOC_CACHE := (DOC_CACHE s)(cache_key_of q1 \<mapsto> doc_success q1 soup1)\<rparr>)"
      using a reg1 sd_success[of s q1 base e1 resp1 html1 soup1] by simp
    have miss2: "DOC_CACHE s1 (cache_key_of q2) = None"
      using a kept by (simp add: s1_def)
    have second: "search_documentation e2 q2 s1 =
      (Inr (doc_success q2 soup2),
       (requested s1 (doc_search_url q2 base))
         \<lparr>DOC_CACHE := (DOC_CACHE s1)(cache_key_of q2 \<mapsto> doc_success q2 soup2)\<rparr>)"
      using a miss2 sd_success[of s1 q2 base e2 resp2 html2 soup2] by simp
    have "fst (search_documentation e1 q1 s) = Inr (doc_success q1 soup1) \<and>
         fst (search_documentation e2 q2 (snd (search_documentation e1 q1 s))) =
           Inr (doc_success q2 soup2) \<and>
         DOC_CACHE (snd (search_documentation e2 q2 (snd (search_documentation e1 q1 s))))
           (cache_key_of q1) = Some (doc_success q1 soup1) \<and>
         DOC_CACHE (snd (search_documentation e2 q2 (snd (search_documentation e1 q1 s))))
           (cache_key_of q2) = Some (doc_success q2 soup2)"
      using keys second by (simp add: s1_def [symmetric]) (simp add: s1_def first)
    then show "\<exists>r1 r2.
         fst (search_documentation e1 q1 s) = Inr r1 \<and>
         fst (search_documentation e2 q2 (snd (search_documentation e1 q1 s))) = Inr r2 \<and>
         DOC_CACHE (snd (search_documentation e2 q2 (snd (search_documentation e1 q1 s))))
           (cache_key_of q1) = Some r1 \<and>
         DOC_CACHE (snd (search_documentation e2 q2 (snd (search_documentation e1 q1 s))))
           (cache_key_of q2) = Some r2"
      by blast
  }
qed

text \<open>C10 for \<open>python\<close> and \<open>Python\<close>: two requests, two entries.\<close>

theorem cache_key_keeps_letter_case_witness:
  "cache_key_of list_query = ''python:list'' \<and> cache_key_of capital_query = ''Python:list'' \<and>
   requests (snd (search_documentation (reply 200 search_page) capital_query
     (snd (search_documentation (reply 200 search_page) list_query initial)))) =
     [''https://docs.python.org/3/search.html?q=list&check_keywords=yes&area=default'',
      ''https://docs.python.org/3/search.html?q=list&check_keywords=yes&area=default''] \<and>
   (\<exists>r1 r2.
      fst (search_documentation (reply 200 search_page) list_query initial) = Inr r1 \<and>
      fst (search_documentation (reply 200 search_page) capital_query
        (snd (search_documentation (reply 200 search_page) list_query initial))) = Inr r2 \<and>
      DOC_CACHE (snd (search_documentation (reply 200 search_page) capital_query
        (snd (search_documentation (reply 200 search_page) list_query initial))))
        ''python:list'' = Some r1 \<and>
      DOC_CACHE (snd (search_documentation (reply 200 search_page) capital_query
        (snd (search_documentation (reply 200 search_page) list_query initial))))
        ''Python:list'' = Some r2)"
proof -
  let ?resp = "\<lparr>status = 200, body = Inr ''<html></html>''\<rparr>"
  let ?e = "reply 200 search_page"
  have a1: "lower (dq_library list_query) = lower (dq_library capital_query)" by code_simp
  have a2: "dq_library list_query \<noteq> dq_library capital_query"
    by (simp add: list_query_def capital_query_def)
  have a3: "dq_term list_query = dq_term capital_query"
    by (simp add: list_query_def capital_query_def)
  have k1: "cache_key_of list_query = ''python:list''"
    and k2: "cache_key_of capital_query = ''Python:list''"
    by (simp_all add: cache_key_of_def list_query_def capital_query_def)
  have reg: "map_of DOC_SOURCES (lower (dq_library capital_query)) =
      Some ''https://docs.python.org/3/''"
    by code_simp
  have url: "doc_search_url capital_query ''https://docs.python.org/3/'' =
     ''https://docs.python.org/3/search.html?q=list&check_keywords=yes&area=default''"
    by code_simp
  have h1: "DOC_CACHE initial (cache_key_of capital_query) = None \<and>
      map_of DOC_SOURCES (lower (dq_library capital_query)) = Some ''https://docs.python.org/3/''"
    using reg by (simp add: initial_def)
  have h2: "DOC_CACHE initial (cache_key_of list_query) = None \<and>
      DOC_CACHE initial (cache_key_of capital_query) = None \<and>
      map_of DOC_SOURCES (lower (dq_library capital_query)) = Some ''https://docs.python.org/3/'' \<and>
      session_get ?e (doc_search_url list_query ''https://docs.python.org/3/'') = Inr ?resp \<and>
      status ?resp = 200 \<and> body ?resp = Inr ''<html></html>'' \<and>
      BeautifulSoup ?e ''<html></html>'' = Inr search_page \<and>
      session_get ?e (doc_search_url capital_query ''https://docs.python.org/3/'') = Inr ?resp \<and>
      status ?resp = 200 \<and> body ?resp = Inr ''<html></html>'' \<and>
      BeautifulSoup ?e ''<html></html>'' = Inr search_page"
    using reg by (simp add: initial_def)
  note inst = cache_key_keeps_letter_case [OF a1 a2 a3]
  note fetches = inst [THEN conjunct2, THEN conjunct1, rule_format, OF h1, of ?e ?e]
  note entries = inst [THEN conjunct2, THEN conjunct2, rule_format, OF h2]
  have log1: "requests (snd (search_documentation ?e list_query initial)) =
     [''https://docs.python.org/3/search.html?q=list&check_keywords=yes&area=default'']"
    by (simp add: list_query_run list_query_url) (simp add: initial_def)
  have reqs: "requests (snd (search_documentation ?e capital_query
       (snd (search_documentation ?e list_query initial)))) =
     [''https://docs.python.org/3/search.html?q=list&check_keywords=yes&area=default'',
      ''https://docs.python.org/3/search.html?q=list&check_keywords=yes&area=default'']"
    using fetches [THEN conjunct2] by (simp add: log1 url)
  show ?thesis
    using k1 k2 reqs entries unfolding k1 k2 by blast
qed

lemma find_rev_take_Suc:
  "i < length xs \<Longrightarrow>
     find P (rev (take (Suc i) xs)) =
       (if P (xs ! i) then Some (xs ! i) else find P (rev (take i xs)))"
  by (simp add: take_Suc_conv_app_nth)

lemma find_previous_None:
  "i \<le> length (descendants soup) \<Longrightarrow>
     find_previous soup i names = None \<longleftrightarrow>
       (\<forall>j<i. \<not> is_named names (descendants soup ! j))"
proof (induction i)
  case 0
  then show ?case by (simp add: find_previous_def)
next
  case (Suc i)
  then have "find_previous soup (Suc i) names =
      (if is_named names (descendants soup ! i) then Some (descendants soup ! i)
       else find_previous soup i names)"
    by (simp add: find_previous_def find_rev_take_Suc del: take_Suc)
  then show ?case using Suc by (auto simp: less_Suc_eq)
qed

lemma find_previous_Some:
  "i \<le> length (descendants soup) \<Longrightarrow>
     find_previous soup i names = Some h \<longleftrightarrow>
       (\<exists>j<i. h = descendants soup ! j \<and> is_named names h \<and>
              (\<forall>k. j < k \<and> k < i \<longrightarrow> \<not> is_named names (descendants soup ! k)))"
proof (induction i)
  case 0
  then show ?case by (simp add: find_previous_def)
next
  case (Suc i)
  have step: "find_previous soup (Suc i) names =
      (if is_named names (descendants soup ! i) then Some (descendants soup ! i)
       else find_previous soup i names)"
    using Suc.prems by (simp add: find_previous_def find_rev_take_Suc del: take_Suc)
  show ?case
  proof (cases "is_named names (descendants soup ! i)")
    case True
    have "(\<exists>j<Suc i. h = descendants soup ! j \<and> is_named names h \<and>
              (\<forall>k. j < k \<and> k < Suc i \<longrightarrow> \<not> is_named names (descendants soup ! k)))
          \<longleftrightarrow> h = descendants soup ! i"
    proof
      assume "\<exists>j<Suc i. h = descendants soup ! j \<and> is_named names h \<and>
              (\<forall>k. j < k \<and> k < Suc i \<longrightarrow> \<not> is_named names (descendants soup ! k))"
      then obtain j where j: "j < Suc i" "h = descendants soup ! j"
        "\<forall>k. j < k \<and> k < Suc i \<longrightarrow> \<not> is_named names (descendants soup ! k)" by blast
      have "j = i"
      proof (rule ccontr)
        assume "j \<noteq> i"
        then have "j < i" using j(1) by simp
        then show False using j(3) True by simp
      qed
      then show "h = descendants soup ! i" using j(2) by simp
    next
      assume "h = descendants soup ! i"
      then show "\<exists>j<Suc i. h = descendants soup ! j \<and> is_named names h \<and>
              (\<forall>k. j < k \<and> k < Suc i \<longrightarrow> \<not> is_named names (descendants soup ! k))"
        using True by (intro exI[of _ i]) (auto simp: less_Suc_eq_le)
    qed
    then show ?thesis using True step by auto
  next
    case False
    have "(\<exists>j<Suc i. h = descendants soup ! j \<and> is_named names h \<and>
              (\<forall>k. j < k \<and> k < Suc i \<longrightarrow> \<not> is_named names (descendants soup ! k)))
          \<longleftrightarrow>
          (\<exists>j<i. h = descendants soup ! j \<and> is_named names h \<and>
              (\<forall>k. j < k \<and> k < i \<longrightarrow> \<not> is_named names (descendants soup ! k)))"
      (is "?L \<longleftrightarrow> ?R")
    proof
      assume ?L
      then obtain j where j: "j < Suc i" "h = descendants soup ! j" "is_named names h"
        "\<forall>k. j < k \<and> k < Suc i \<longrightarrow> \<not> is_named names (descendants soup ! k)" by blast
      have "j \<noteq> i" using j(2,3) False by auto
      then have "j < i" using j(1) by simp
      then show ?R using j by (intro exI[of _ j]) simp
    next
      assume ?R
      then obtain j where j: "j < i" "h = descendants soup ! j" "is_named names h"
        "\<forall>k. j < k \<and> k < i \<longrightarrow> \<not> is_named names (descendants soup ! k)" by blast
      then show ?L using False by (intro exI[of _ j]) (auto simp: less_Suc_eq)
    qed
    then show ?thesis using False step Suc by simp
  qed
qed

text \<open>
  Claim C1, as amended. When the language lower-cases to \<open>python\<close> and the fetch
  answers 200 with a page that decodes and parses, the handler returns no error and
  looks only at the first \<open>max_examples\<close> \<open>pre\<close> blocks of the page in document
  order (\<open>code_blocks[:max_examples]\<close>). Of these it keeps, in order, exactly the
  blocks whose text contains the function name as a contiguous, case-sensitive
  substring; a block that does not match still uses up one of the \<open>max_examples\<close>
  places. The title of an example is the stripped text of the result of
  \<open>find_previous\<close>, or \<open>Example\<close> when there is none (\<open>example_of\<close>), and
  \<open>find_previous\<close> at a position returns the heading tag with the greatest
  position before it, and nothing exactly when no heading tag lies before it.
\<close>

theorem python_examples_from_first_blocks:
  assumes "cq_language c = Some lang" and "lower lang = ''python''"
    and "map_of CODE_EXAMPLE_SOURCES (lower lang) = Some template"
    and "session_get e (format1 template (cq_function c)) = Inr resp"
    and "status resp = 200" and "body resp = Inr html" and "BeautifulSoup e html = Inr soup"
  shows
  "(\<exists>r. fst (get_code_examples e c s) = Inr r \<and>
      cr_error r = None \<and>
      cr_examples r =
        map (example_of soup)
          (filter (\<lambda>i. str_in (cq_function c) (text_of (descendants soup ! i)))
             (slice_to (select_pre soup) (cq_max_examples c)))) \<and>
   (\<forall>i\<le>length (descendants soup).
      (find_previous soup i headings = None \<longleftrightarrow>
         (\<forall>j<i. \<not> is_named headings (descendants soup ! j))) \<and>
      (\<forall>h. find_previous soup i headings = Some h \<longleftrightarrow>
         (\<exists>j<i. h = descendants soup ! j \<and> is_named headings h \<and>
            (\<forall>k. j < k \<and> k < i \<longrightarrow> \<not> is_named headings (descendants soup ! k))))) \<and>
   (\<forall>t. str_in (cq_function c) t \<longleftrightarrow> (\<exists>p r. t = p @ cq_function c @ r))"
proof (intro conjI allI impI)
  have run: "fst (get_code_examples e c s) = Inr (code_success c ''python'' soup)"
    using gce_success[OF assms(1,3,4,5,6,7), of s] assms(2) by simp
  show "\<exists>r. fst (get_code_examples e c s) = Inr r \<and>
      cr_error r = None \<and>
      cr_examples r =
        map (example_of soup)
          (filter (\<lambda>i. str_in (cq_function c) (text_of (descendants soup ! i)))
             (slice_to (select_pre soup) (cq_max_examples c)))"
    by (simp add: run code_success_def code_extract_def python_examples_filter)
next
  fix i
  assume "i \<le> length (descendants soup)"
  then show "find_previous soup i headings = None \<longleftrightarrow>
         (\<forall>j<i. \<not> is_named headings (descendants soup ! j))"
    by (rule find_previous_None)
next
  fix i h
  assume "i \<le> length (descendants soup)"
  then show "find_previous soup i headings = Some h \<longleftrightarrow>
         (\<exists>j<i. h = descendants soup ! j \<and> is_named headings h \<and>
            (\<forall>k. j < k \<and> k < i \<longrightarrow> \<not> is_named headings (descendants soup ! k)))"
    by (rule find_previous_Some)
next
  fix t
  show "str_in (cq_function c) t \<longleftrightarrow> (\<exists>p r. t = p @ cq_function c @ r)"
    by (simp add: str_in_sublist sublist_def)
qed

text \<open>
  C1 on the sample page with \<open>max_examples = 2\<close>: the first two \<open>pre\<close> blocks are
  at positions 2 and 4, and only the first of them mentions \<open>sorted\<close>.
\<close>

theorem python_examples_from_first_blocks_witness:
  "slice_to (select_pre examples_page) (cq_max_examples sorted_query) = [2, 4] \<and>
   (\<exists>r. fst (get_code_examples (reply 200 examples_page) sorted_query initial) = Inr r \<and>
      cr_error r = None \<and>
      cr_examples r =
        [[(''title'', ''Sorting''), (''code'', ''sorted(xs)''), (''language'', ''python'')]])"
proof -
  let ?resp = "\<lparr>status = 200, body = Inr ''<html></html>''\<rparr>"
  have lang: "cq_language sorted_query = Some ''python''"
    by (simp add: sorted_query_def)
  have l: "lower ''python'' = ''python''" by code_simp
  have reg: "map_of CODE_EXAMPLE_SOURCES (lower ''python'') =
     Some ''https://docs.python.org/3/search.html?q={}&check_keywords=yes&area=default''"
    by code_simp
  have got: "session_get (reply 200 examples_page)
      (format1 ''https://docs.python.org/3/search.html?q={}&check_keywords=yes&area=default''
         (cq_function sorted_query)) = Inr ?resp"
    by simp
  have ok: "status ?resp = 200" and dec: "body ?resp = Inr ''<html></html>''"
    and parsed: "BeautifulSoup (reply 200 examples_page) ''<html></html>'' = Inr examples_page"
    by simp_all
  note inst = python_examples_from_first_blocks [OF lang l reg got ok dec parsed, of initial]
  have kept: "map (example_of examples_page)
       (filter (\<lambda>i. str_in (cq_function sorted_query) (text_of (descendants examples_page ! i)))
          (slice_to (select_pre examples_page) (cq_max_examples sorted_query))) =
     [[(''title'', ''Sorting''), (''code'', ''sorted(xs)''), (''language'', ''python'')]]"
    by code_simp
  have sl: "slice_to (select_pre examples_page) (cq_max_examples sorted_query) = [2, 4]"
    by code_simp
  have ex: "\<exists>r. fst (get_code_examples (reply 200 examples_page) sorted_query initial) = Inr r \<and>
      cr_error r = None \<and>
      cr_examples r =
        [[(''title'', ''Sorting''), (''code'', ''sorted(xs)''), (''language'', ''python'')]]"
    using inst [THEN conjunct1] unfolding kept .
  show ?thesis using sl ex by blast
qed

text \<open>
  C1 as stated fails. The sample page has three \<open>pre\<close> blocks; the first and third
  mention \<open>sorted\<close>, the second does not. With \<open>max_examples = 2\<close> the
  specification's reading (filter all blocks, then cap) gives both matching blocks,
  while the handler returns only the first: the second block, which does not match,
  has used the second place.
\<close>

theorem later_matching_block_is_dropped:
  "select_pre examples_page = [2, 4, 6] \<and>
   spec_python_examples examples_page (cq_function sorted_query) (cq_max_examples sorted_query) =
     [[(''title'', ''Sorting''), (''code'', ''sorted(xs)''), (''language'', ''python'')],
      [(''title'', ''Sorting''), (''code'', ''sorted(ys)''), (''language'', ''python'')]] \<and>
   (\<exists>r. fst (get_code_examples (reply 200 examples_page) sorted_query initial) = Inr r \<and>
      cr_examples r =
        [[(''title'', ''Sorting''), (''code'', ''sorted(xs)''), (''language'', ''python'')]] \<and>
      cr_examples r \<noteq>
        spec_python_examples examples_page (cq_function sorted_query)
          (cq_max_examples sorted_query))"
proof -
  have pre: "select_pre examples_page = [2, 4, 6]" by code_simp
  have run: "fst (get_code_examples (reply 200 examples_page) sorted_query initial) =
      Inr (code_success sorted_query ''python'' examples_page)"
    by (simp add: sorted_query_run)
  have code: "cr_examples (code_success sorted_query ''python'' examples_page) =
     [[(''title'', ''Sorting''), (''code'', ''sorted(xs)''), (''language'', ''python'')]]"
    by (simp add: code_success_def sorted_query_examples)
  have spec: "spec_python_examples examples_page (cq_function sorted_query)
       (cq_max_examples sorted_query) =
     [[(''title'', ''Sorting''), (''code'', ''sorted(xs)''), (''language'', ''python'')],
      [(''title'', ''Sorting''), (''code'', ''sorted(ys)''), (''language'', ''python'')]]"
    by code_simp
  have "cr_examples (code_success sorted_query ''python'' examples_page) \<noteq>
      spec_python_examples examples_page (cq_function sorted_query)
        (cq_max_examples sorted_query)"
    unfolding code spec by simp
  then show ?thesis using pre run code spec by blast
qed

end
